theory Spec2Isabelle
  imports Complex_Main "HOL-Library.Sublist" "HOL-Library.Multiset"
begin

section \<open>Data model\<close>

text \<open>
  The profiling engine of the repository is \<^verbatim>\<open>analyze_dataframe\<close> in
  \<^verbatim>\<open>src/flask_app.py\<close>; \<^verbatim>\<open>src/streamlist.py\<close> repeats the same computation inline
  in a Streamlit script. Both work on the pandas \<^verbatim>\<open>DataFrame\<close> that \<^verbatim>\<open>pd.read_csv\<close>
  builds with its default arguments.

  A Python string is a list of Unicode code points; \<open>ustr\<close> writes an ASCII literal.
\<close>

type_synonym pystr = "nat list"

definition ustr :: "string \<Rightarrow> pystr" where
  "ustr s = map of_char s"

text \<open>
  A cell is a closed variant. A missing value is \<open>NaN\<close> (what \<^verbatim>\<open>read_csv\<close> stores for an
  absent field); the empty string, zero and \<open>False\<close> are ordinary values. Binary floating
  point is not modelled: a float that is not missing is carried by its value, a rational
  number or an infinity, together with the text Python's \<^verbatim>\<open>str\<close> prints for it. The two
  zeros \<^verbatim>\<open>0.0\<close> and \<^verbatim>\<open>-0.0\<close> have one value and two texts.
\<close>

datatype float_value = Finite rat | PosInf | NegInf

datatype cell = NaN | IntCell int | FloatCell float_value pystr | BoolCell bool | StrCell pystr

record column =
  col_name :: pystr
  col_dtype :: string
  col_cells :: "cell list"

text \<open>
  A frame is its row index, one label per row, and its columns. The default index of
  \<^verbatim>\<open>read_csv\<close> is the \<^verbatim>\<open>RangeIndex\<close> of the positions \<open>0..N-1\<close>; when the data rows have one
  field more than the header, \<^verbatim>\<open>read_csv\<close> takes the first field of every row as its label
  instead. A frame without columns still has its index (\<^verbatim>\<open>df.shape == (N, 0)\<close>).
\<close>

record dataframe =
  df_index :: "cell list"
  df_columns :: "column list"

definition df_rows :: "dataframe \<Rightarrow> nat" where
  "df_rows df = length (df_index df)"

definition range_index :: "nat \<Rightarrow> cell list" where
  "range_index n = map (\<lambda>i. IntCell (int i)) [0..<n]"

definition default_index :: "dataframe \<Rightarrow> bool" where
  "default_index df \<longleftrightarrow> df_index df = range_index (df_rows df)"

text \<open>
  The invariant of every pandas frame the code receives: the column labels are unique
  (\<^verbatim>\<open>read_csv\<close> renames repeated headers) and every column has one cell per row.
\<close>

definition well_formed :: "dataframe \<Rightarrow> bool" where
  "well_formed df \<longleftrightarrow>
     distinct (map col_name (df_columns df)) \<and>
     list_all (\<lambda>c. length (col_cells c) = df_rows df) (df_columns df)"

text \<open>The dataclasses of \<^verbatim>\<open>flask_app.py\<close>, lines 18-65. Field names carry a prefix since
  several classes share \<^verbatim>\<open>name\<close>, \<^verbatim>\<open>missing_count\<close> and \<^verbatim>\<open>percentage\<close>. Percentages are
  Python floats; they are modelled as exact rationals.\<close>

record ColumnStatus =
  cs_name :: pystr
  cs_is_complete :: bool
  cs_complete_count :: nat
  cs_missing_count :: nat
  cs_completion_rate :: rat
  cs_dtype :: string

record WordResult =
  wr_name :: pystr
  wr_count :: nat
  wr_percentage :: rat

record WordExample =
  we_name :: pystr
  we_row_number :: int
  we_value :: pystr

record MissingBreakdown =
  mb_name :: pystr
  mb_missing_count :: nat
  mb_percentage :: rat

record DatasetStats =
  num_rows :: nat
  num_columns :: nat
  num_duplicates :: nat
  total_missing :: nat
  missing_percentage :: rat
  complete_columns_count :: nat
  complete_columns :: "pystr list"
  all_columns :: "ColumnStatus list"
  filtered_columns :: "ColumnStatus list"
  column_names :: "pystr list"
  dtypes :: "(pystr \<times> string) list"
  missing_breakdown :: "MissingBreakdown list"
  word_results :: "WordResult list"
  word_examples :: "WordExample list"
  word_total_occurrences :: nat

text \<open>The module constant \<^verbatim>\<open>EXCLUDED_COLUMNS\<close> (lines 86-95).\<close>

definition EXCLUDED_COLUMNS :: "pystr list" where
  "EXCLUDED_COLUMNS =
     map ustr [''CreatedAt'', ''ModifiedAt'', ''DeletedAt'', ''IsDeleted'',
               ''CreatedById'', ''ModifiedById'', ''DeletedById'', ''Governorate'']"

section \<open>Python and pandas primitives\<close>

text \<open>
  The exceptions the modelled operations can raise. \<open>Unmodelled\<close> is not an exception: it
  marks a run that leaves the part of pandas described here.
\<close>

datatype py_error = ZeroDivisionError | KeyError | ValueError | OverflowError | Unmodelled

text \<open>\<^verbatim>\<open>a / b\<close> on Python integers raises on a zero divisor.\<close>

definition truediv :: "nat \<Rightarrow> nat \<Rightarrow> py_error + rat" where
  "truediv a b = (if b = 0 then Inl ZeroDivisionError else Inr (of_nat a / of_nat b))"

text \<open>
  The expression \<^verbatim>\<open>(x / d * 100) if d else 0.0\<close>, which the source writes four times
  (lines 130, 141, 168 and 188): the division is evaluated only in the true branch.
\<close>

definition percent_if :: "nat \<Rightarrow> nat \<Rightarrow> py_error + rat" where
  "percent_if x d =
     (if d \<noteq> 0
      then (case truediv x d of Inl e \<Rightarrow> Inl e | Inr q \<Rightarrow> Inr (q * 100))
      else Inr 0)"

subsection \<open>Strings\<close>

text \<open>
  \<^verbatim>\<open>str.lower\<close>, \<^verbatim>\<open>str.upper\<close> and \<^verbatim>\<open>int\<close> of a string work from the Unicode tables of the
  Python runtime, which are not part of the repository. They are a parameter of the
  model: every function that uses one of them takes the runtime \<open>py\<close>, and a statement
  about all runtimes holds for Python's.
\<close>

record pylib =
  str_lower :: "pystr \<Rightarrow> pystr"
  str_upper :: "pystr \<Rightarrow> pystr"
  str_to_int :: "pystr \<Rightarrow> int option"

text \<open>Python's \<^verbatim>\<open>sub in s\<close> on strings: \<open>sub\<close> starts at some position of \<open>s\<close>.\<close>

fun str_in :: "pystr \<Rightarrow> pystr \<Rightarrow> bool" where
  "str_in sub [] = (sub = [])"
| "str_in sub (c # s) = (prefix sub (c # s) \<or> str_in sub s)"

text \<open>\<^verbatim>\<open>str\<close> of an integer: decimal digits, with a sign for negative numbers.\<close>

definition digit_char :: "nat \<Rightarrow> nat" where
  "digit_char d = 48 + d"

fun str_nat :: "nat \<Rightarrow> pystr" where
  "str_nat n = (if n < 10 then [digit_char n] else str_nat (n div 10) @ [digit_char (n mod 10)])"

definition str_int :: "int \<Rightarrow> pystr" where
  "str_int i = (if i < 0 then 45 # str_nat (nat (- i)) else str_nat (nat i))"

text \<open>
  The text of a cell, as both \<^verbatim>\<open>Series.astype(str)\<close> (line 182) and \<^verbatim>\<open>str(df.loc[idx, col])\<close>
  (line 196) produce it: a missing value becomes the literal \<^verbatim>\<open>nan\<close> (the behaviour of
  pandas before version 3, where \<^verbatim>\<open>astype(str)\<close> converts every element with \<^verbatim>\<open>str\<close>).
\<close>

fun str_cell :: "cell \<Rightarrow> pystr" where
  "str_cell NaN = ustr ''nan''"
| "str_cell (IntCell i) = str_int i"
| "str_cell (FloatCell v r) = r"
| "str_cell (BoolCell b) = (if b then ustr ''True'' else ustr ''False'')"
| "str_cell (StrCell s) = s"

text \<open>
  The value of a cell, as Python and pandas compare it: numbers of the three numeric
  kinds are equal when they are the same number (\<^verbatim>\<open>1 == 1.0 == True\<close>, \<^verbatim>\<open>0.0 == -0.0\<close>),
  and pandas takes two missing values for equal when it looks for repeats.
\<close>

datatype cell_value = Missing | Number float_value | Text pystr

fun value_of :: "cell \<Rightarrow> cell_value" where
  "value_of NaN = Missing"
| "value_of (IntCell i) = Number (Finite (of_int i))"
| "value_of (FloatCell v r) = Number v"
| "value_of (BoolCell b) = Number (Finite (if b then 1 else 0))"
| "value_of (StrCell s) = Text s"

text \<open>
  \<^verbatim>\<open>int(idx)\<close> of a row label (line 198): an integer is itself, a boolean is 0 or 1, a
  finite float is cut towards zero, an infinity raises \<^verbatim>\<open>OverflowError\<close>, a missing
  label raises \<^verbatim>\<open>ValueError\<close>, and a string is parsed, with \<^verbatim>\<open>ValueError\<close> when it is not
  the text of an integer.
\<close>

fun int_of_label :: "pylib \<Rightarrow> cell \<Rightarrow> py_error + int" where
  "int_of_label py NaN = Inl ValueError"
| "int_of_label py (IntCell i) = Inr i"
| "int_of_label py (FloatCell (Finite q) r) = Inr (if 0 \<le> q then \<lfloor>q\<rfloor> else \<lceil>q\<rceil>)"
| "int_of_label py (FloatCell PosInf r) = Inl OverflowError"
| "int_of_label py (FloatCell NegInf r) = Inl OverflowError"
| "int_of_label py (BoolCell b) = Inr (if b then 1 else 0)"
| "int_of_label py (StrCell s) =
     (case str_to_int py s of None \<Rightarrow> Inl ValueError | Some i \<Rightarrow> Inr i)"

subsection \<open>Series and frames\<close>

definition isnull :: "cell \<Rightarrow> bool" where
  "isnull c \<longleftrightarrow> c = NaN"

definition notna :: "cell \<Rightarrow> bool" where
  "notna c \<longleftrightarrow> c \<noteq> NaN"

text \<open>\<^verbatim>\<open>Series.sum()\<close> of a boolean series counts its \<open>True\<close> entries.\<close>

definition bool_sum :: "bool list \<Rightarrow> nat" where
  "bool_sum bs = length (filter (\<lambda>b. b) bs)"

text \<open>\<^verbatim>\<open>df.shape\<close>.\<close>

definition shape :: "dataframe \<Rightarrow> nat \<times> nat" where
  "shape df = (df_rows df, length (df_columns df))"

text \<open>\<^verbatim>\<open>df.empty\<close>: one of the two axes has length 0.\<close>

definition df_empty :: "dataframe \<Rightarrow> bool" where
  "df_empty df \<longleftrightarrow> df_rows df = 0 \<or> df_columns df = []"

text \<open>\<^verbatim>\<open>df[col]\<close> raises \<^verbatim>\<open>KeyError\<close> for a label that is not a column.\<close>

definition getitem :: "dataframe \<Rightarrow> pystr \<Rightarrow> py_error + column" where
  "getitem df col =
     (case find (\<lambda>c. col_name c = col) (df_columns df) of
        None \<Rightarrow> Inl KeyError
      | Some c \<Rightarrow> Inr c)"

text \<open>
  \<^verbatim>\<open>df.loc[idx, col]\<close>: the cell of column \<open>col\<close> in the row labelled \<open>idx\<close>. A label that
  no row carries raises \<^verbatim>\<open>KeyError\<close>. For a label that several rows carry pandas gives
  a series in place of a cell; its text is not modelled.
\<close>

definition label_positions :: "dataframe \<Rightarrow> cell \<Rightarrow> nat list" where
  "label_positions df idx =
     filter (\<lambda>i. value_of (df_index df ! i) = value_of idx) [0..<df_rows df]"

definition loc :: "dataframe \<Rightarrow> cell \<Rightarrow> pystr \<Rightarrow> py_error + cell" where
  "loc df idx col =
     (case getitem df col of
        Inl e \<Rightarrow> Inl e
      | Inr series \<Rightarrow>
          (case label_positions df idx of
             [] \<Rightarrow> Inl KeyError
           | [i] \<Rightarrow> if i < length (col_cells series) then Inr (col_cells series ! i)
                    else Inl KeyError
           | _ \<Rightarrow> Inl Unmodelled))"

text \<open>The rows of a frame, in index order, each as the values of its cells.\<close>

definition row_at :: "dataframe \<Rightarrow> nat \<Rightarrow> cell_value list" where
  "row_at df i = map (\<lambda>c. value_of (col_cells c ! i)) (df_columns df)"

definition df_rowlist :: "dataframe \<Rightarrow> cell_value list list" where
  "df_rowlist df = map (row_at df) [0..<df_rows df]"

text \<open>
  \<^verbatim>\<open>df.duplicated()\<close> with its default \<^verbatim>\<open>keep='first'\<close>: scanning the rows in order, a row
  is flagged when a row with the same values was seen before. pandas returns an empty
  series for an empty frame (no rows, or no columns) before it looks at any row.
\<close>

fun duplicated_scan :: "cell_value list list \<Rightarrow> cell_value list list \<Rightarrow> bool list" where
  "duplicated_scan seen [] = []"
| "duplicated_scan seen (r # rs) = (r \<in> set seen) # duplicated_scan (r # seen) rs"

definition duplicated :: "dataframe \<Rightarrow> bool list" where
  "duplicated df = (if df_empty df then [] else duplicated_scan [] (df_rowlist df))"

text \<open>\<^verbatim>\<open>df.isnull().sum()\<close>: the number of missing cells of each column, by column label.\<close>

definition isnull_sum :: "dataframe \<Rightarrow> (pystr \<times> nat) list" where
  "isnull_sum df =
     map (\<lambda>c. (col_name c, bool_sum (map isnull (col_cells c)))) (df_columns df)"

text \<open>
  \<^verbatim>\<open>list.sort(key=..., reverse=True)\<close>. CPython sorts stably in ascending order; for
  \<^verbatim>\<open>reverse=True\<close> it reverses the list before and after, which keeps equal keys in their
  original order.
\<close>

definition list_sort_reverse :: "('a \<Rightarrow> nat) \<Rightarrow> 'a list \<Rightarrow> 'a list" where
  "list_sort_reverse key xs = rev (sort_key key (rev xs))"

text \<open>\<^verbatim>\<open>Series.astype(str)\<close>.\<close>

definition astype_str :: "column \<Rightarrow> pystr list" where
  "astype_str series = map str_cell (col_cells series)"

text \<open>
  \<^verbatim>\<open>Series.str.contains(pat, case=False, na=False, regex=False)\<close>: pandas upper-cases the
  pattern once and tests \<^verbatim>\<open>upper_pat in x.upper()\<close> for every element.
\<close>

definition str_contains :: "pylib \<Rightarrow> pystr \<Rightarrow> pystr list \<Rightarrow> bool list" where
  "str_contains py pat xs =
     (let upper_pat = str_upper py pat in map (\<lambda>x. str_in upper_pat (str_upper py x)) xs)"

text \<open>\<^verbatim>\<open>df.loc[matches].index\<close>: the labels of the rows whose mask entry is true.\<close>

definition loc_mask_index :: "dataframe \<Rightarrow> bool list \<Rightarrow> cell list" where
  "loc_mask_index df matches =
     map (\<lambda>i. df_index df ! i) (filter (\<lambda>i. i < length matches \<and> matches ! i) [0..<df_rows df])"

section \<open>The profiler: \<^verbatim>\<open>analyze_dataframe\<close>\<close>

text \<open>Line 132. The excluded names are a parameter here; \<open>analyze_dataframe\<close> below passes
  the module constant.\<close>

definition columns_to_check :: "pystr list \<Rightarrow> dataframe \<Rightarrow> pystr list" where
  "columns_to_check excluded df =
     filter (\<lambda>col. col \<notin> set excluded) (map col_name (df_columns df))"

text \<open>Line 133: \<^verbatim>\<open>[col for col in columns_to_check if df[col].notna().all()]\<close>.\<close>

fun complete_columns_of :: "dataframe \<Rightarrow> pystr list \<Rightarrow> py_error + pystr list" where
  "complete_columns_of df [] = Inr []"
| "complete_columns_of df (col # cols) =
     (case getitem df col of
        Inl e \<Rightarrow> Inl e
      | Inr series \<Rightarrow>
          (case complete_columns_of df cols of
             Inl e \<Rightarrow> Inl e
           | Inr rest \<Rightarrow>
               Inr (if list_all notna (col_cells series) then col # rest else rest)))"

text \<open>Lines 136-152: the loop that appends one \<open>ColumnStatus\<close> per checked column.\<close>

fun all_columns_of :: "dataframe \<Rightarrow> nat \<Rightarrow> pystr list \<Rightarrow> py_error + ColumnStatus list" where
  "all_columns_of df n [] = Inr []"
| "all_columns_of df n (col # cols) =
     (case getitem df col of
        Inl e \<Rightarrow> Inl e
      | Inr series \<Rightarrow>
          (let missing_count = bool_sum (map isnull (col_cells series));
               complete_count = bool_sum (map notna (col_cells series))
           in case percent_if complete_count n of
                Inl e \<Rightarrow> Inl e
              | Inr completion_rate \<Rightarrow>
                  (case all_columns_of df n cols of
                     Inl e \<Rightarrow> Inl e
                   | Inr rest \<Rightarrow>
                       Inr (\<lparr>cs_name = col,
                             cs_is_complete = (missing_count = 0),
                             cs_complete_count = complete_count,
                             cs_missing_count = missing_count,
                             cs_completion_rate = completion_rate,
                             cs_dtype = col_dtype series\<rparr> # rest))))"

text \<open>Lines 154-162.\<close>

definition filtered_columns_of ::
  "pylib \<Rightarrow> pystr \<Rightarrow> ColumnStatus list \<Rightarrow> ColumnStatus list" where
  "filtered_columns_of py column_query statuses =
     (if column_query \<noteq> []
      then filter (\<lambda>status. str_in (str_lower py column_query) (str_lower py (cs_name status)))
             statuses
      else [])"

text \<open>Lines 164-172: the comprehension over \<^verbatim>\<open>missing_data.items()\<close>.\<close>

fun missing_breakdown_items :: "nat \<Rightarrow> (pystr \<times> nat) list \<Rightarrow> py_error + MissingBreakdown list" where
  "missing_breakdown_items n [] = Inr []"
| "missing_breakdown_items n ((col, cnt) # items) =
     (if cnt > 0
      then (case percent_if cnt n of
              Inl e \<Rightarrow> Inl e
            | Inr p \<Rightarrow>
                (case missing_breakdown_items n items of
                   Inl e \<Rightarrow> Inl e
                 | Inr rest \<Rightarrow>
                     Inr (\<lparr>mb_name = col, mb_missing_count = cnt, mb_percentage = p\<rparr> # rest)))
      else missing_breakdown_items n items)"

text \<open>
  Lines 195-199: the inner loop that appends one example per matched label. The cell is
  read first (line 196), then the label is converted (line 198).
\<close>

fun append_examples ::
  "pylib \<Rightarrow> dataframe \<Rightarrow> pystr \<Rightarrow> cell list \<Rightarrow> WordExample list \<Rightarrow> py_error + WordExample list" where
  "append_examples py df col [] examples = Inr examples"
| "append_examples py df col (idx # idxs) examples =
     (case loc df idx col of
        Inl e \<Rightarrow> Inl e
      | Inr c \<Rightarrow>
          (case int_of_label py idx of
             Inl e \<Rightarrow> Inl e
           | Inr n \<Rightarrow>
               append_examples py df col idxs
                 (examples @ [\<lparr>we_name = col, we_row_number = n + 1, we_value = str_cell c\<rparr>])))"

text \<open>
  Lines 181-199: the loop over the checked columns. Its state is the three variables
  \<^verbatim>\<open>word_results\<close>, \<^verbatim>\<open>word_examples\<close> and \<^verbatim>\<open>word_total_occurrences\<close>.
\<close>

fun word_loop ::
  "pylib \<Rightarrow> dataframe \<Rightarrow> pystr \<Rightarrow> nat \<Rightarrow> pystr list \<Rightarrow>
   WordResult list \<times> WordExample list \<times> nat \<Rightarrow>
   py_error + (WordResult list \<times> WordExample list \<times> nat)" where
  "word_loop py df lowered_word n [] st = Inr st"
| "word_loop py df lowered_word n (col # cols) (results, examples, occurrences) =
     (case getitem df col of
        Inl e \<Rightarrow> Inl e
      | Inr series \<Rightarrow>
          (let matches = str_contains py lowered_word (astype_str series);
               cnt = bool_sum matches
           in if cnt > 0
              then (case percent_if cnt n of
                      Inl e \<Rightarrow> Inl e
                    | Inr percentage \<Rightarrow>
                        (let matched_indices = take 3 (loc_mask_index df matches)
                         in case append_examples py df col matched_indices examples of
                              Inl e \<Rightarrow> Inl e
                            | Inr examples' \<Rightarrow>
                                word_loop py df lowered_word n cols
                                  (results @ [\<lparr>wr_name = col, wr_count = cnt,
                                                wr_percentage = percentage\<rparr>],
                                   examples',
                                   occurrences + cnt)))
              else word_loop py df lowered_word n cols (results, examples, occurrences)))"

text \<open>Lines 175-202: the word search, run only for a non-empty query.\<close>

definition word_search ::
  "pylib \<Rightarrow> pystr list \<Rightarrow> dataframe \<Rightarrow> nat \<Rightarrow> pystr \<Rightarrow>
   py_error + (WordResult list \<times> WordExample list \<times> nat)" where
  "word_search py excluded df n word_query =
     (if word_query \<noteq> []
      then (case word_loop py df (str_lower py word_query) n (columns_to_check excluded df)
                   ([], [], 0) of
              Inl e \<Rightarrow> Inl e
            | Inr (results, examples, occurrences) \<Rightarrow>
                Inr (list_sort_reverse wr_count results, take 10 examples, occurrences))
      else Inr ([], [], 0))"

text \<open>Lines 121-220.\<close>

definition analyze_dataframe_with ::
  "pylib \<Rightarrow> pystr list \<Rightarrow> dataframe \<Rightarrow> pystr \<Rightarrow> pystr \<Rightarrow> py_error + DatasetStats" where
  "analyze_dataframe_with py excluded df column_query word_query =
     (let (n_rows, n_columns) = shape df;
          n_duplicates = bool_sum (duplicated df);
          missing_data = isnull_sum df;
          tot_missing = sum_list (map snd missing_data);
          total_cells = n_rows * n_columns
      in case percent_if tot_missing total_cells of
           Inl e \<Rightarrow> Inl e
         | Inr missing_pct \<Rightarrow>
      (let to_check = columns_to_check excluded df
       in case complete_columns_of df to_check of
            Inl e \<Rightarrow> Inl e
          | Inr complete_cols \<Rightarrow>
       (case all_columns_of df n_rows to_check of
            Inl e \<Rightarrow> Inl e
          | Inr statuses \<Rightarrow>
       (case missing_breakdown_items n_rows missing_data of
            Inl e \<Rightarrow> Inl e
          | Inr breakdown \<Rightarrow>
       (case word_search py excluded df n_rows word_query of
            Inl e \<Rightarrow> Inl e
          | Inr (results, examples, occurrences) \<Rightarrow>
              Inr \<lparr>num_rows = n_rows,
                   num_columns = n_columns,
                   num_duplicates = n_duplicates,
                   total_missing = tot_missing,
                   missing_percentage = missing_pct,
                   complete_columns_count = length complete_cols,
                   complete_columns = complete_cols,
                   all_columns = statuses,
                   filtered_columns = filtered_columns_of py column_query statuses,
                   column_names = map col_name (df_columns df),
                   dtypes = map (\<lambda>c. (col_name c, col_dtype c)) (df_columns df),
                   missing_breakdown = list_sort_reverse mb_missing_count breakdown,
                   word_results = results,
                   word_examples = examples,
                   word_total_occurrences = occurrences\<rparr>)))))"

definition analyze_dataframe ::
  "pylib \<Rightarrow> dataframe \<Rightarrow> pystr \<Rightarrow> pystr \<Rightarrow> py_error + DatasetStats" where
  "analyze_dataframe py df column_query word_query =
     analyze_dataframe_with py EXCLUDED_COLUMNS df column_query word_query"

section \<open>A model of the runtime on ASCII and Greek text\<close>

text \<open>
  The statements below hold for every runtime. To evaluate the profiler on examples, a
  runtime is written out here for the text the examples use. Its \<open>lower\<close> and \<open>upper\<close> are
  Python's on every string of ASCII characters and on every string made of the Greek
  letters alpha to omega without accents (capitals \<^verbatim>\<open>U+0391\<close> to \<^verbatim>\<open>U+03A9\<close>, small letters
  \<^verbatim>\<open>U+03B1\<close> to \<^verbatim>\<open>U+03C9\<close>): these letters change case, a capital sigma becomes the final
  sigma \<^verbatim>\<open>U+03C2\<close> when a letter stands before it and none after it, and \<^verbatim>\<open>U+03C3\<close>
  otherwise. Its \<open>int\<close> is Python's on a string of ASCII digits (at most 4300 of them)
  and on a string that holds an ASCII letter, which is not the text of an integer.
  Nothing is said here about Python on other strings.
\<close>

definition ascii_lower :: "nat \<Rightarrow> nat" where
  "ascii_lower c = (if 65 \<le> c \<and> c \<le> 90 then c + 32 else c)"

definition ascii_upper :: "nat \<Rightarrow> nat" where
  "ascii_upper c = (if 97 \<le> c \<and> c \<le> 122 then c - 32 else c)"

definition greek_capital :: "nat \<Rightarrow> bool" where
  "greek_capital c \<longleftrightarrow> 0x391 \<le> c \<and> c \<le> 0x3A9 \<and> c \<noteq> 0x3A2"

definition greek_small :: "nat \<Rightarrow> bool" where
  "greek_small c \<longleftrightarrow> 0x3B1 \<le> c \<and> c \<le> 0x3C9"

definition cased :: "nat \<Rightarrow> bool" where
  "cased c \<longleftrightarrow> (65 \<le> c \<and> c \<le> 90) \<or> (97 \<le> c \<and> c \<le> 122) \<or> greek_capital c \<or> greek_small c"

definition lower_char :: "nat \<Rightarrow> nat" where
  "lower_char c = (if greek_capital c then c + 32 else ascii_lower c)"

definition upper_char :: "nat \<Rightarrow> nat" where
  "upper_char c =
     (if c = 0x3C2 then 0x3A3 else if greek_small c then c - 32 else ascii_upper c)"

fun lower_from :: "nat option \<Rightarrow> pystr \<Rightarrow> pystr" where
  "lower_from prev [] = []"
| "lower_from prev (c # cs) =
     (if c = 0x3A3
      then (if (case prev of None \<Rightarrow> False | Some p \<Rightarrow> cased p) \<and>
               (case cs of [] \<Rightarrow> True | d # ds \<Rightarrow> \<not> cased d)
            then 0x3C2 else 0x3C3)
      else lower_char c) # lower_from (Some c) cs"

definition model_lower :: "pystr \<Rightarrow> pystr" where
  "model_lower s = lower_from None s"

definition model_upper :: "pystr \<Rightarrow> pystr" where
  "model_upper s = map upper_char s"

definition model_to_int :: "pystr \<Rightarrow> int option" where
  "model_to_int s =
     (if s \<noteq> [] \<and> list_all (\<lambda>c. 48 \<le> c \<and> c \<le> 57) s
      then Some (foldl (\<lambda>n c. 10 * n + int (c - 48)) 0 s)
      else None)"

definition py_model :: pylib where
  "py_model = \<lparr>str_lower = model_lower, str_upper = model_upper, str_to_int = model_to_int\<rparr>"

section \<open>The Streamlit script\<close>

text \<open>
  \<^verbatim>\<open>src/streamlist.py\<close> repeats the word search inline. Two of its lines differ from
  \<^verbatim>\<open>analyze_dataframe\<close>. Line 187 calls
  \<^verbatim>\<open>col_text.str.contains(word_search, case=False, na=False)\<close> without \<^verbatim>\<open>regex=False\<close>, so
  pandas compiles the word with \<^verbatim>\<open>re.compile(pat, flags=re.IGNORECASE)\<close> and tests
  \<^verbatim>\<open>regex.search(x)\<close>. Line 235 cuts the text of an example to its first 100 characters.

  Of Python's regular expressions only the ASCII patterns made of ordinary characters
  and the wildcard \<^verbatim>\<open>.\<close>, searched in ASCII text, are modelled; the result is \<open>None\<close> for
  a pattern with any other special character and for text outside ASCII, about which
  nothing is stated here.
\<close>

datatype re_item = Lit nat | AnyChar

definition is_ascii :: "pystr \<Rightarrow> bool" where
  "is_ascii s \<longleftrightarrow> list_all (\<lambda>c. c < 128) s"

definition re_special :: "nat \<Rightarrow> bool" where
  "re_special c \<longleftrightarrow> c \<in> set (ustr (CHR 0x5C # ''^$*+?{}[]|()''))"

fun re_compile :: "pystr \<Rightarrow> re_item list option" where
  "re_compile [] = Some []"
| "re_compile (c # cs) =
     (if re_special c \<or> 128 \<le> c then None
      else (case re_compile cs of
              None \<Rightarrow> None
            | Some items \<Rightarrow> Some ((if c = 46 then AnyChar else Lit c) # items)))"

fun re_item_matches :: "re_item \<Rightarrow> nat \<Rightarrow> bool" where
  "re_item_matches (Lit p) c = (ascii_lower p = ascii_lower c)"
| "re_item_matches AnyChar c = (c \<noteq> 10)"

fun re_match_here :: "re_item list \<Rightarrow> pystr \<Rightarrow> bool" where
  "re_match_here [] s = True"
| "re_match_here (i # items) [] = False"
| "re_match_here (i # items) (c # s) = (re_item_matches i c \<and> re_match_here items s)"

fun re_search :: "re_item list \<Rightarrow> pystr \<Rightarrow> bool" where
  "re_search items [] = re_match_here items []"
| "re_search items (c # s) = (re_match_here items (c # s) \<or> re_search items s)"

text \<open>Line 187, on the text of the cells of one column.\<close>

definition streamlit_str_contains :: "pystr \<Rightarrow> pystr list \<Rightarrow> bool list option" where
  "streamlit_str_contains pat xs =
     (case re_compile pat of
        None \<Rightarrow> None
      | Some regex \<Rightarrow> if list_all is_ascii xs then Some (map (re_search regex) xs) else None)"

text \<open>Line 235: \<^verbatim>\<open>str(df.loc[idx, col])[:100]\<close>.\<close>

definition streamlit_example_value :: "cell \<Rightarrow> pystr" where
  "streamlit_example_value c = take 100 (str_cell c)"

section \<open>Notions of the specification\<close>

text \<open>
  The definitions of this section are not steps of the program. They name, in the
  specification's terms, what the fields of a profile are compared with in the
  statements below.
\<close>

text \<open>
  A case-insensitive literal substring: some contiguous piece of \<open>s\<close> agrees with the
  query character by character, where two characters agree when they are equal or are
  the upper-case and lower-case form of the same ASCII letter. On ASCII text this is
  the whole notion; on other text it leaves out the case pairs beyond ASCII, so that
  whatever it accepts is contained without regard to case, and every literal substring
  is accepted.
\<close>

definition is_ascii_upper :: "nat \<Rightarrow> bool" where
  "is_ascii_upper c \<longleftrightarrow> 65 \<le> c \<and> c \<le> 90"

definition same_letter :: "nat \<Rightarrow> nat \<Rightarrow> bool" where
  "same_letter a b \<longleftrightarrow>
     a = b \<or> (is_ascii_upper a \<and> b = a + 32) \<or> (is_ascii_upper b \<and> a = b + 32)"

definition ci_substring :: "pystr \<Rightarrow> pystr \<Rightarrow> bool" where
  "ci_substring q s \<longleftrightarrow> (\<exists>t. sublist t s \<and> list_all2 same_letter t q)"

text \<open>
  What is known of every Python runtime and used below: on a string of ASCII characters
  \<^verbatim>\<open>lower\<close> and \<^verbatim>\<open>upper\<close> change the case of the ASCII letters and nothing else.
\<close>

definition ascii_case :: "pylib \<Rightarrow> bool" where
  "ascii_case py \<longleftrightarrow>
     (\<forall>s. is_ascii s \<longrightarrow>
        str_lower py s = map ascii_lower s \<and> str_upper py s = map ascii_upper s)"

text \<open>The included columns: the columns of the frame whose name is not excluded, in
  the frame's order.\<close>

definition included :: "pystr list \<Rightarrow> dataframe \<Rightarrow> column list" where
  "included excluded df = filter (\<lambda>c. col_name c \<notin> set excluded) (df_columns df)"

text \<open>The number of missing and of present cells of a column, and a percentage that is 0
  for a zero base.\<close>

definition null_count :: "column \<Rightarrow> nat" where
  "null_count c = length (filter isnull (col_cells c))"

definition present_count :: "column \<Rightarrow> nat" where
  "present_count c = length (filter notna (col_cells c))"

definition pct :: "nat \<Rightarrow> nat \<Rightarrow> rat" where
  "pct x d = (if d = 0 then 0 else of_nat x / of_nat d * 100)"

text \<open>The status and the breakdown entry of a column in a frame of \<open>n\<close> rows.\<close>

definition status_of :: "nat \<Rightarrow> column \<Rightarrow> ColumnStatus" where
  "status_of n c =
     \<lparr>cs_name = col_name c,
      cs_is_complete = (null_count c = 0),
      cs_complete_count = present_count c,
      cs_missing_count = null_count c,
      cs_completion_rate = pct (present_count c) n,
      cs_dtype = col_dtype c\<rparr>"

definition breakdown_of :: "nat \<Rightarrow> column \<Rightarrow> MissingBreakdown" where
  "breakdown_of n c =
     \<lparr>mb_name = col_name c, mb_missing_count = null_count c, mb_percentage = pct (null_count c) n\<rparr>"

text \<open>
  For a search word and a column: the mask of matching cells as line 183 computes it,
  the number of matches, the matching row positions in row order, the first three
  examples, and the result entry. The row number of an example is its position plus 1.
\<close>

definition match_mask :: "pylib \<Rightarrow> pystr \<Rightarrow> column \<Rightarrow> bool list" where
  "match_mask py word_query c = str_contains py (str_lower py word_query) (astype_str c)"

definition match_count :: "pylib \<Rightarrow> pystr \<Rightarrow> column \<Rightarrow> nat" where
  "match_count py word_query c = bool_sum (match_mask py word_query c)"

definition match_rows :: "pylib \<Rightarrow> pystr \<Rightarrow> column \<Rightarrow> nat list" where
  "match_rows py word_query c =
     filter (\<lambda>i. match_mask py word_query c ! i) [0..<length (col_cells c)]"

definition example_at :: "column \<Rightarrow> nat \<Rightarrow> WordExample" where
  "example_at c i =
     \<lparr>we_name = col_name c, we_row_number = int i + 1, we_value = str_cell (col_cells c ! i)\<rparr>"

definition examples_of :: "pylib \<Rightarrow> pystr \<Rightarrow> column \<Rightarrow> WordExample list" where
  "examples_of py word_query c = map (example_at c) (take 3 (match_rows py word_query c))"

definition result_of :: "pylib \<Rightarrow> pystr \<Rightarrow> nat \<Rightarrow> column \<Rightarrow> WordResult" where
  "result_of py word_query n c =
     \<lparr>wr_name = col_name c, wr_count = match_count py word_query c,
      wr_percentage = pct (match_count py word_query c) n\<rparr>"

text \<open>
  A row repeats an earlier row when some row before it has the same values in every
  column; the duplicate-row count of the specification is the number of such rows.
\<close>

definition repeats_earlier_row :: "dataframe \<Rightarrow> nat \<Rightarrow> bool" where
  "repeats_earlier_row df i \<longleftrightarrow> (\<exists>j<i. row_at df j = row_at df i)"

definition duplicate_row_count :: "dataframe \<Rightarrow> nat" where
  "duplicate_row_count df = length (filter (repeats_earlier_row df) [0..<df_rows df])"

text \<open>The three word-search fields of the profile.\<close>

definition word_part ::
  "pylib \<Rightarrow> pystr list \<Rightarrow> dataframe \<Rightarrow> pystr \<Rightarrow> WordResult list \<times> WordExample list \<times> nat" where
  "word_part py excluded df w =
     (if w = [] then ([], [], 0)
      else (list_sort_reverse wr_count
              (map (result_of py w (df_rows df))
                 (filter (\<lambda>c. 0 < match_count py w c) (included excluded df))),
            take 10 (concat (map (examples_of py w)
                 (filter (\<lambda>c. 0 < match_count py w c) (included excluded df)))),
            sum_list (map (match_count py w) (included excluded df))))"

text \<open>
  The profile of a frame, given the three fields of the word search: what lines 121-174
  and 204-220 put into the profile.
\<close>

definition profile_of ::
  "pylib \<Rightarrow> pystr list \<Rightarrow> dataframe \<Rightarrow> pystr \<Rightarrow>
   WordResult list \<times> WordExample list \<times> nat \<Rightarrow> DatasetStats" where
  "profile_of py excluded df cq w =
     \<lparr>num_rows = df_rows df,
      num_columns = length (df_columns df),
      num_duplicates = (if df_empty df then 0 else duplicate_row_count df),
      total_missing = sum_list (map null_count (df_columns df)),
      missing_percentage =
        pct (sum_list (map null_count (df_columns df))) (df_rows df * length (df_columns df)),
      complete_columns_count = length (filter (\<lambda>c. null_count c = 0) (included excluded df)),
      complete_columns = map col_name (filter (\<lambda>c. null_count c = 0) (included excluded df)),
      all_columns = map (status_of (df_rows df)) (included excluded df),
      filtered_columns =
        (if cq = [] then []
         else filter (\<lambda>s. str_in (str_lower py cq) (str_lower py (cs_name s)))
                (map (status_of (df_rows df)) (included excluded df))),
      column_names = map col_name (df_columns df),
      dtypes = map (\<lambda>c. (col_name c, col_dtype c)) (df_columns df),
      missing_breakdown =
        list_sort_reverse mb_missing_count
          (map (breakdown_of (df_rows df)) (filter (\<lambda>c. 0 < null_count c) (df_columns df))),
      word_results = fst w,
      word_examples = fst (snd w),
      word_total_occurrences = snd (snd w)\<rparr>"

section \<open>Example frames\<close>

text \<open>
  The frame of the specification's scenario (three rows, \<open>A = [1, null, 1]\<close>,
  \<open>B = [x, y, x]\<close>) with an excluded column beside it; a frame with two columns and no
  rows; and two frames of a single cell.
\<close>

definition ex_df :: dataframe where
  "ex_df = \<lparr>df_index = range_index 3, df_columns =
     [\<lparr>col_name = ustr ''A'', col_dtype = ''float64'',
       col_cells = [FloatCell (Finite 1) (ustr ''1.0''), NaN, FloatCell (Finite 1) (ustr ''1.0'')]\<rparr>,
      \<lparr>col_name = ustr ''B'', col_dtype = ''object'',
       col_cells = [StrCell (ustr ''x''), StrCell (ustr ''y''), StrCell (ustr ''x'')]\<rparr>,
      \<lparr>col_name = ustr ''Governorate'', col_dtype = ''object'',
       col_cells = [NaN, NaN, StrCell (ustr ''Xy'')]\<rparr>]\<rparr>"

definition empty_df :: dataframe where
  "empty_df = \<lparr>df_index = range_index 0, df_columns =
     [\<lparr>col_name = ustr ''A'', col_dtype = ''object'', col_cells = []\<rparr>,
      \<lparr>col_name = ustr ''B'', col_dtype = ''object'', col_cells = []\<rparr>]\<rparr>"

definition one_cell_df :: dataframe where
  "one_cell_df = \<lparr>df_index = range_index 1, df_columns =
     [\<lparr>col_name = ustr ''A'', col_dtype = ''int64'', col_cells = [IntCell 1]\<rparr>]\<rparr>"

definition all_null_df :: dataframe where
  "all_null_df = \<lparr>df_index = range_index 1, df_columns =
     [\<lparr>col_name = ustr ''A'', col_dtype = ''float64'', col_cells = [NaN]\<rparr>]\<rparr>"

text \<open>
  A frame of five rows: the third repeats the first, their floats being the two zeros,
  and the fifth repeats the fourth, both with a missing float.
\<close>

definition dup_df :: dataframe where
  "dup_df = \<lparr>df_index = range_index 5, df_columns =
     [\<lparr>col_name = ustr ''A'', col_dtype = ''object'',
       col_cells = [StrCell (ustr ''x''), StrCell (ustr ''y''), StrCell (ustr ''x''),
                    StrCell (ustr ''z''), StrCell (ustr ''z'')]\<rparr>,
      \<lparr>col_name = ustr ''B'', col_dtype = ''float64'',
       col_cells = [FloatCell (Finite 0) (ustr ''0.0''), FloatCell (Finite 1) (ustr ''1.0''),
                    FloatCell (Finite 0) (ustr ''-0.0''), NaN, NaN]\<rparr>]\<rparr>"


text \<open>A column with the single cell \<open>abc\<close>, and a frame whose single cell holds 101
  characters.\<close>

definition abc_col :: column where
  "abc_col = \<lparr>col_name = ustr ''Code'', col_dtype = ''object'', col_cells = [StrCell (ustr ''abc'')]\<rparr>"

definition long_df :: dataframe where
  "long_df = \<lparr>df_index = range_index 1, df_columns =
     [\<lparr>col_name = ustr ''Note'', col_dtype = ''object'',
       col_cells = [StrCell (replicate 101 97)]\<rparr>]\<rparr>"




text \<open>
  The frame \<^verbatim>\<open>read_csv\<close> builds from the two lines \<^verbatim>\<open>A,B\<close> and \<^verbatim>\<open>x,1,2\<close>: the data row has
  one field more than the header, so its first field is the label of the row.
\<close>

definition labelled_df :: dataframe where
  "labelled_df = \<lparr>df_index = [StrCell (ustr ''x'')], df_columns =
     [\<lparr>col_name = ustr ''A'', col_dtype = ''int64'', col_cells = [IntCell 1]\<rparr>,
      \<lparr>col_name = ustr ''B'', col_dtype = ''int64'', col_cells = [IntCell 2]\<rparr>]\<rparr>"

section \<open>Case-insensitive containment\<close>

lemma ascii_upper_lower: "ascii_upper (ascii_lower c) = ascii_upper c"
  by (auto simp: ascii_upper_def ascii_lower_def)

lemma same_letter_upper: "same_letter a b \<longleftrightarrow> ascii_upper a = ascii_upper b"
  by (auto simp: same_letter_def is_ascii_upper_def ascii_upper_def)

lemma same_letter_lower: "same_letter a b \<longleftrightarrow> ascii_lower a = ascii_lower b"
  by (auto simp: same_letter_def is_ascii_upper_def ascii_lower_def)

lemma str_in_sublist: "str_in sub s \<longleftrightarrow> sublist sub s"
  by (induction s) (auto simp: sublist_Cons_right)

lemma sublist_map_ex: "sublist ys (map f s) \<longleftrightarrow> (\<exists>t. sublist t s \<and> map f t = ys)"
proof
  assume "sublist ys (map f s)"
  then obtain ps ss where "map f s = ps @ ys @ ss" by (auto simp: sublist_def)
  then obtain p r where 1: "s = p @ r" "map f r = ys @ ss"
    by (metis map_eq_append_conv)
  then obtain t r' where 2: "r = t @ r'" "map f t = ys"
    by (metis map_eq_append_conv)
  from 1 2 have "s = p @ t @ r'" "map f t = ys" by simp_all
  then show "\<exists>t. sublist t s \<and> map f t = ys" by (auto simp: sublist_def)
next
  assume "\<exists>t. sublist t s \<and> map f t = ys"
  then obtain t ps ss where "s = ps @ t @ ss" "map f t = ys" by (auto simp: sublist_def)
  then have "map f s = map f ps @ ys @ map f ss" by simp
  then show "sublist ys (map f s)" unfolding sublist_def by blast
qed

lemma map_eq_list_all2: "map f t = map f q \<longleftrightarrow> list_all2 (\<lambda>a b. f a = f b) t q"
  by (induction t arbitrary: q) (auto simp: list_all2_Cons1 Cons_eq_map_conv)

lemma ci_substring_lower: "ci_substring q s \<longleftrightarrow> str_in (map ascii_lower q) (map ascii_lower s)"
  by (simp add: ci_substring_def str_in_sublist sublist_map_ex map_eq_list_all2
        same_letter_lower[abs_def])

lemma ci_substring_upper:
  "ci_substring q s \<longleftrightarrow> str_in (map ascii_upper (map ascii_lower q)) (map ascii_upper s)"
proof -
  have up: "map ascii_upper (map ascii_lower q) = map ascii_upper q"
    by (simp add: ascii_upper_lower)
  show ?thesis
    unfolding up
    by (simp add: ci_substring_def str_in_sublist sublist_map_ex map_eq_list_all2
          same_letter_upper[abs_def])
qed


lemma is_ascii_map_lower: "is_ascii s \<Longrightarrow> is_ascii (map ascii_lower s)"
  by (auto simp: is_ascii_def list_all_iff ascii_lower_def)


lemma ascii_case_upper_in:
  assumes "ascii_case py" and "is_ascii q" and "is_ascii s"
  shows "str_in (str_upper py (str_lower py q)) (str_upper py s) \<longleftrightarrow> ci_substring q s"
proof -
  have "str_lower py q = map ascii_lower q"
    using assms(1,2) by (simp add: ascii_case_def)
  moreover have "str_upper py (map ascii_lower q) = map ascii_upper (map ascii_lower q)"
    using assms(1) is_ascii_map_lower[OF assms(2)] by (simp add: ascii_case_def)
  moreover have "str_upper py s = map ascii_upper s"
    using assms(1,3) by (simp add: ascii_case_def)
  ultimately show ?thesis by (simp add: ci_substring_upper)
qed




section \<open>What the loops compute on a well-formed frame\<close>

lemma percent_if_eq: "percent_if x d = Inr (pct x d)"
  by (simp add: percent_if_def truediv_def pct_def)

lemma find_distinct_name:
  "distinct (map col_name cs) \<Longrightarrow> c \<in> set cs \<Longrightarrow> find (\<lambda>x. col_name x = col_name c) cs = Some c"
  by (induction cs) (auto simp: image_iff)

lemma getitem_in:
  "distinct (map col_name (df_columns df)) \<Longrightarrow> c \<in> set (df_columns df) \<Longrightarrow>
   getitem df (col_name c) = Inr c"
  by (simp add: getitem_def find_distinct_name)

lemma all_notna_iff: "list_all notna xs \<longleftrightarrow> length (filter isnull xs) = 0"
  by (induction xs) (auto simp: notna_def isnull_def)

lemma bool_sum_map: "bool_sum (map P xs) = length (filter P xs)"
  by (simp add: bool_sum_def filter_map comp_def)

lemma complete_columns_of_eq:
  "distinct (map col_name (df_columns df)) \<Longrightarrow> set cs \<subseteq> set (df_columns df) \<Longrightarrow>
   complete_columns_of df (map col_name cs) =
     Inr (map col_name (filter (\<lambda>c. null_count c = 0) cs))"
  by (induction cs) (simp_all add: getitem_in all_notna_iff null_count_def)

lemma all_columns_of_eq:
  "distinct (map col_name (df_columns df)) \<Longrightarrow> set cs \<subseteq> set (df_columns df) \<Longrightarrow>
   all_columns_of df n (map col_name cs) = Inr (map (status_of n) cs)"
  by (induction cs)
     (simp_all add: getitem_in percent_if_eq bool_sum_map status_of_def null_count_def
        present_count_def Let_def)

lemma missing_breakdown_items_eq:
  "missing_breakdown_items n (map (\<lambda>c. (col_name c, null_count c)) cs) =
     Inr (map (breakdown_of n) (filter (\<lambda>c. 0 < null_count c) cs))"
  by (induction cs) (simp_all add: percent_if_eq breakdown_of_def)

lemma isnull_sum_eq: "isnull_sum df = map (\<lambda>c. (col_name c, null_count c)) (df_columns df)"
  by (simp add: isnull_sum_def bool_sum_map null_count_def)

lemma filter_eq_upt: "filter (\<lambda>j. j = i) [0..<n] = (if i < n then [i] else [])"
  by (induction n) auto

lemma default_index_nth:
  "default_index df \<Longrightarrow> i < df_rows df \<Longrightarrow> df_index df ! i = IntCell (int i)"
proof -
  assume d: "default_index df" and i: "i < df_rows df"
  have "df_index df ! i = range_index (df_rows df) ! i"
    using d by (simp add: default_index_def)
  also have "\<dots> = IntCell (int i)"
    using i by (simp add: range_index_def)
  finally show ?thesis .
qed

lemma label_positions_default:
  assumes "default_index df" and "i < df_rows df"
  shows "label_positions df (IntCell (int i)) = [i]"
proof -
  have "filter (\<lambda>j. value_of (df_index df ! j) = value_of (IntCell (int i))) [0..<df_rows df] =
      filter (\<lambda>j. j = i) [0..<df_rows df]"
    by (rule filter_cong) (auto simp: default_index_nth[OF assms(1)])
  then show ?thesis
    using assms(2) by (simp add: label_positions_def filter_eq_upt)
qed

lemma loc_default:
  "distinct (map col_name (df_columns df)) \<Longrightarrow> c \<in> set (df_columns df) \<Longrightarrow>
   default_index df \<Longrightarrow> i < df_rows df \<Longrightarrow> length (col_cells c) = df_rows df \<Longrightarrow>
   loc df (IntCell (int i)) (col_name c) = Inr (col_cells c ! i)"
  by (simp add: loc_def getitem_in label_positions_default)

lemma append_examples_eq:
  "distinct (map col_name (df_columns df)) \<Longrightarrow> c \<in> set (df_columns df) \<Longrightarrow>
   default_index df \<Longrightarrow> length (col_cells c) = df_rows df \<Longrightarrow>
   \<forall>i \<in> set rows. i < df_rows df \<Longrightarrow>
   append_examples py df (col_name c) (map (\<lambda>i. IntCell (int i)) rows) acc =
     Inr (acc @ map (example_at c) rows)"
  by (induction rows arbitrary: acc) (simp_all add: loc_default example_at_def)

lemma length_match_mask: "length (match_mask py w c) = length (col_cells c)"
  by (simp add: match_mask_def str_contains_def astype_str_def)

lemma loc_mask_index_eq:
  assumes "default_index df" and "length (col_cells c) = df_rows df"
  shows "loc_mask_index df (match_mask py w c) = map (\<lambda>i. IntCell (int i)) (match_rows py w c)"
proof -
  have "filter (\<lambda>i. i < length (match_mask py w c) \<and> match_mask py w c ! i) [0..<df_rows df] =
      match_rows py w c"
    using assms(2) by (auto simp: match_rows_def length_match_mask intro: filter_cong)
  moreover have "map (\<lambda>i. df_index df ! i) (match_rows py w c) =
      map (\<lambda>i. IntCell (int i)) (match_rows py w c)"
    using assms by (auto simp: match_rows_def default_index_nth)
  ultimately show ?thesis by (simp add: loc_mask_index_def)
qed

lemma match_rows_bound: "i \<in> set (match_rows py w c) \<Longrightarrow> i < length (col_cells c)"
  by (simp add: match_rows_def)

lemma word_loop_eq:
  assumes "distinct (map col_name (df_columns df))"
    and "default_index df"
    and "set cs \<subseteq> set (df_columns df)"
    and "\<forall>c \<in> set cs. length (col_cells c) = df_rows df"
  shows "word_loop py df (str_lower py w) n (map col_name cs) (R, E, T) =
     Inr (R @ map (result_of py w n) (filter (\<lambda>c. 0 < match_count py w c) cs),
          E @ concat (map (examples_of py w) (filter (\<lambda>c. 0 < match_count py w c) cs)),
          T + sum_list (map (match_count py w) cs))"
  using assms(3,4)
proof (induction cs arbitrary: R E T)
  case Nil
  then show ?case by simp
next
  case (Cons c cs)
  have c: "c \<in> set (df_columns df)" and len: "length (col_cells c) = df_rows df"
    using Cons.prems by auto
  have bound: "\<forall>i \<in> set (take 3 (match_rows py w c)). i < df_rows df"
  proof
    fix i
    assume "i \<in> set (take 3 (match_rows py w c))"
    then have "i \<in> set (match_rows py w c)" by (rule in_set_takeD)
    then have "i < length (col_cells c)" by (rule match_rows_bound)
    then show "i < df_rows df" using len by simp
  qed
  have "append_examples py df (col_name c)
          (map (\<lambda>i. IntCell (int i)) (take 3 (match_rows py w c))) E =
      Inr (E @ map (example_at c) (take 3 (match_rows py w c)))"
    by (rule append_examples_eq[OF assms(1) c assms(2) len bound])
  then have ex: "append_examples py df (col_name c)
          (take 3 (map (\<lambda>i. IntCell (int i)) (match_rows py w c))) E =
      Inr (E @ examples_of py w c)"
    by (simp add: examples_of_def take_map)
  have IH: "\<And>R E T. word_loop py df (str_lower py w) n (map col_name cs) (R, E, T) =
     Inr (R @ map (result_of py w n) (filter (\<lambda>c. 0 < match_count py w c) cs),
          E @ concat (map (examples_of py w) (filter (\<lambda>c. 0 < match_count py w c) cs)),
          T + sum_list (map (match_count py w) cs))"
    using Cons.IH Cons.prems by auto
  show ?case
    using getitem_in[OF assms(1) c] loc_mask_index_eq[OF assms(2) len, of py w] ex
    by (simp add: IH percent_if_eq Let_def match_mask_def[symmetric] match_count_def[symmetric]
          result_of_def)
qed

lemma columns_to_check_eq: "columns_to_check excluded df = map col_name (included excluded df)"
  by (simp add: columns_to_check_def included_def filter_map comp_def)

lemma wf_distinct: "well_formed df \<Longrightarrow> distinct (map col_name (df_columns df))"
  by (simp add: well_formed_def)

lemma wf_length: "well_formed df \<Longrightarrow> c \<in> set (df_columns df) \<Longrightarrow> length (col_cells c) = df_rows df"
  by (simp add: well_formed_def list_all_iff)

lemma included_subset: "set (included excluded df) \<subseteq> set (df_columns df)"
  by (auto simp: included_def)

lemma word_search_eq:
  assumes "well_formed df" and "default_index df"
  shows "word_search py excluded df (df_rows df) w = Inr (word_part py excluded df w)"
proof (cases "w = []")
  case True
  then show ?thesis by (simp add: word_search_def word_part_def)
next
  case False
  have "word_loop py df (str_lower py w) (df_rows df) (map col_name (included excluded df))
          ([], [], 0) =
     Inr ([] @ map (result_of py w (df_rows df))
                 (filter (\<lambda>c. 0 < match_count py w c) (included excluded df)),
          [] @ concat (map (examples_of py w)
                 (filter (\<lambda>c. 0 < match_count py w c) (included excluded df))),
          0 + sum_list (map (match_count py w) (included excluded df)))"
    by (rule word_loop_eq[OF wf_distinct[OF assms(1)] assms(2) included_subset])
       (use included_subset wf_length[OF assms(1)] in blast)
  with False show ?thesis
    by (simp add: word_search_def word_part_def columns_to_check_eq)
qed

lemma analyze_dataframe_with_eq:
  assumes "well_formed df" and "default_index df"
  shows "analyze_dataframe_with py excluded df cq wq =
     Inr \<lparr>num_rows = df_rows df,
          num_columns = length (df_columns df),
          num_duplicates = bool_sum (duplicated df),
          total_missing = sum_list (map null_count (df_columns df)),
          missing_percentage =
            pct (sum_list (map null_count (df_columns df))) (df_rows df * length (df_columns df)),
          complete_columns_count =
            length (filter (\<lambda>c. null_count c = 0) (included excluded df)),
          complete_columns = map col_name (filter (\<lambda>c. null_count c = 0) (included excluded df)),
          all_columns = map (status_of (df_rows df)) (included excluded df),
          filtered_columns =
            filtered_columns_of py cq (map (status_of (df_rows df)) (included excluded df)),
          column_names = map col_name (df_columns df),
          dtypes = map (\<lambda>c. (col_name c, col_dtype c)) (df_columns df),
          missing_breakdown =
            list_sort_reverse mb_missing_count
              (map (breakdown_of (df_rows df)) (filter (\<lambda>c. 0 < null_count c) (df_columns df))),
          word_results = fst (word_part py excluded df wq),
          word_examples = fst (snd (word_part py excluded df wq)),
          word_total_occurrences = snd (snd (word_part py excluded df wq))\<rparr>"
proof -
  note d = wf_distinct[OF assms(1)]
  have 1: "complete_columns_of df (columns_to_check excluded df) =
      Inr (map col_name (filter (\<lambda>c. null_count c = 0) (included excluded df)))"
    unfolding columns_to_check_eq by (rule complete_columns_of_eq[OF d included_subset])
  have 2: "all_columns_of df (df_rows df) (columns_to_check excluded df) =
      Inr (map (status_of (df_rows df)) (included excluded df))"
    unfolding columns_to_check_eq by (rule all_columns_of_eq[OF d included_subset])
  have 3: "missing_breakdown_items (df_rows df) (isnull_sum df) =
      Inr (map (breakdown_of (df_rows df)) (filter (\<lambda>c. 0 < null_count c) (df_columns df)))"
    unfolding isnull_sum_eq by (rule missing_breakdown_items_eq)
  have 4: "sum_list (map snd (isnull_sum df)) = sum_list (map null_count (df_columns df))"
    by (simp add: isnull_sum_eq comp_def)
  show ?thesis
    unfolding analyze_dataframe_with_def shape_def
    by (simp add: 1 2 3 4 percent_if_eq word_search_eq[OF assms] Let_def case_prod_beta)
qed

lemmas analyze_dataframe_eq =
  analyze_dataframe_with_eq[where excluded = EXCLUDED_COLUMNS, folded analyze_dataframe_def]

section \<open>Counts and percentages\<close>

lemma null_count_le: "null_count c \<le> length (col_cells c)"
  by (simp add: null_count_def)

lemma present_count_le: "present_count c \<le> length (col_cells c)"
  by (simp add: present_count_def)

lemma null_plus_present: "null_count c + present_count c = length (col_cells c)"
  using sum_length_filter_compl[of isnull "col_cells c"]
  by (simp add: null_count_def present_count_def notna_def[abs_def] isnull_def[abs_def])

lemma pct_range: "x \<le> d \<Longrightarrow> 0 \<le> pct x d \<and> pct x d \<le> 100"
  by (auto simp: pct_def divide_le_eq)

lemma pct_zero_iff: "x \<le> d \<Longrightarrow> pct x d = 0 \<longleftrightarrow> x = 0"
  by (auto simp: pct_def)

lemma sum_null_count_le:
  "\<forall>c \<in> set cs. length (col_cells c) = n \<Longrightarrow> sum_list (map null_count cs) \<le> n * length cs"
proof (induction cs)
  case Nil
  then show ?case by simp
next
  case (Cons c cs)
  then have "null_count c \<le> n" using null_count_le[of c] by simp
  with Cons show ?case by simp
qed

section \<open>Sorting in descending order\<close>

lemma mset_list_sort_reverse: "mset (list_sort_reverse key xs) = mset xs"
  by (simp add: list_sort_reverse_def)

lemma filter_list_sort_reverse:
  "filter (\<lambda>x. key x = k) (list_sort_reverse key xs) = filter (\<lambda>x. key x = k) xs"
  by (simp add: list_sort_reverse_def rev_filter[symmetric] sort_key_stable)

lemma sorted_list_sort_reverse:
  "sorted_wrt (\<lambda>a b. key a \<ge> key b) (list_sort_reverse key xs)"
proof -
  have "sorted (map key (sort_key key (rev xs)))" by simp
  then have "sorted_wrt (\<lambda>a b. key a \<le> key b) (sort_key key (rev xs))"
    by (simp add: sorted_map)
  then show ?thesis
    unfolding list_sort_reverse_def by (simp add: sorted_wrt_rev)
qed

lemma distinct_map_list_sort_reverse:
  "distinct (map f (list_sort_reverse key xs)) = distinct (map f xs)"
proof -
  have "mset (map f (list_sort_reverse key xs)) = mset (map f xs)"
    by (simp add: mset_list_sort_reverse)
  then show ?thesis by (rule mset_eq_imp_distinct_iff)
qed

lemma distinct_breakdown_names:
  "distinct (map col_name cs) \<Longrightarrow>
   distinct (map mb_name (map (breakdown_of n) (filter P cs)))"
  by (simp add: comp_def breakdown_of_def distinct_map_filter)

section \<open>Duplicate rows\<close>

lemma duplicated_scan_eq:
  "duplicated_scan seen rs = map (\<lambda>i. rs ! i \<in> set seen \<union> set (take i rs)) [0..<length rs]"
proof (induction rs arbitrary: seen)
  case Nil
  then show ?case by simp
next
  case (Cons r rs)
  have "map (\<lambda>i. (r # rs) ! i \<in> set seen \<union> set (take i (r # rs))) [0..<length (r # rs)] =
      (r \<in> set seen) # map (\<lambda>i. rs ! i \<in> set (r # seen) \<union> set (take i rs)) [0..<length rs]"
    by (auto simp: map_upt_Suc simp del: upt_Suc)
  then show ?case by (simp add: Cons.IH)
qed

lemma in_take_rowlist:
  assumes "i < df_rows df"
  shows "row_at df i \<in> set (take i (df_rowlist df)) \<longleftrightarrow> repeats_earlier_row df i"
proof -
  have "take i (df_rowlist df) = map (row_at df) [0..<i]"
    using assms by (simp add: df_rowlist_def take_map take_upt)
  moreover have "row_at df i \<in> row_at df ` {0..<i} \<longleftrightarrow> (\<exists>j<i. row_at df j = row_at df i)"
  proof
    assume "row_at df i \<in> row_at df ` {0..<i}"
    then obtain j where "j < i" "row_at df i = row_at df j" by auto
    then show "\<exists>j<i. row_at df j = row_at df i" by metis
  next
    assume "\<exists>j<i. row_at df j = row_at df i"
    then obtain j where j: "j < i" "row_at df j = row_at df i" by blast
    then have "j \<in> {0..<i}" by simp
    with j(2) show "row_at df i \<in> row_at df ` {0..<i}" by (metis imageI)
  qed
  ultimately show ?thesis
    by (simp add: repeats_earlier_row_def)
qed

lemma bool_sum_duplicated:
  "bool_sum (duplicated df) = (if df_empty df then 0 else duplicate_row_count df)"
proof (cases "df_empty df")
  case True
  then show ?thesis by (simp add: duplicated_def bool_sum_def)
next
  case False
  have "duplicated df =
      map (\<lambda>i. row_at df i \<in> set (take i (df_rowlist df))) [0..<df_rows df]"
    using False by (simp add: duplicated_def duplicated_scan_eq) (simp add: df_rowlist_def)
  also have "\<dots> = map (repeats_earlier_row df) [0..<df_rows df]"
    by (simp add: in_take_rowlist)
  finally show ?thesis
    using False by (simp add: bool_sum_map duplicate_row_count_def)
qed

lemma duplicate_row_count_no_rows: "df_rows df = 0 \<Longrightarrow> duplicate_row_count df = 0"
  by (simp add: duplicate_row_count_def)

lemma dup_count_dup_df: "duplicate_row_count dup_df = 2"
proof -
  have "bool_sum (duplicated dup_df) = 2"
    by code_simp
  moreover have "\<not> df_empty dup_df"
    by code_simp
  ultimately show ?thesis
    by (simp add: bool_sum_duplicated)
qed

section \<open>The word search\<close>

lemma list_sort_reverse_Nil: "list_sort_reverse key [] = []"
  by (simp add: list_sort_reverse_def)














section \<open>The profile of a well-formed frame\<close>

text \<open>
  On a well-formed frame, whatever its index, only the word search can fail; when it
  does not, the fields of the profile that do not come from it are those of
  \<open>profile_of\<close>.
\<close>

lemma analyze_dataframe_with_profile:
  assumes "well_formed df"
  shows "analyze_dataframe_with py excluded df cq wq =
     (case word_search py excluded df (df_rows df) wq of
        Inl e \<Rightarrow> Inl e
      | Inr w \<Rightarrow> Inr (profile_of py excluded df cq w))"
proof -
  note d = wf_distinct[OF assms(1)]
  have 1: "complete_columns_of df (columns_to_check excluded df) =
      Inr (map col_name (filter (\<lambda>c. null_count c = 0) (included excluded df)))"
    unfolding columns_to_check_eq by (rule complete_columns_of_eq[OF d included_subset])
  have 2: "all_columns_of df (df_rows df) (columns_to_check excluded df) =
      Inr (map (status_of (df_rows df)) (included excluded df))"
    unfolding columns_to_check_eq by (rule all_columns_of_eq[OF d included_subset])
  have 3: "missing_breakdown_items (df_rows df) (isnull_sum df) =
      Inr (map (breakdown_of (df_rows df)) (filter (\<lambda>c. 0 < null_count c) (df_columns df)))"
    unfolding isnull_sum_eq by (rule missing_breakdown_items_eq)
  have 4: "sum_list (map snd (isnull_sum df)) = sum_list (map null_count (df_columns df))"
    by (simp add: isnull_sum_eq comp_def)
  show ?thesis
    unfolding analyze_dataframe_with_def shape_def
    by (simp add: 1 2 3 4 percent_if_eq Let_def case_prod_beta profile_of_def
          filtered_columns_of_def bool_sum_duplicated split: sum.splits)
qed

lemma analyze_dataframe_with_Inr:
  assumes "well_formed df" and "analyze_dataframe_with py excluded df cq wq = Inr st"
  shows "\<exists>w. st = profile_of py excluded df cq w"
  using assms(2) unfolding analyze_dataframe_with_profile[OF assms(1)]
  by (auto split: sum.splits)

lemmas analyze_dataframe_Inr =
  analyze_dataframe_with_Inr[where excluded = EXCLUDED_COLUMNS, folded analyze_dataframe_def]

lemma analyze_dataframe_with_returns:
  assumes "well_formed df" and "default_index df"
  shows "\<exists>st. analyze_dataframe_with py excluded df cq wq = Inr st"
  unfolding analyze_dataframe_with_eq[OF assms] by simp

lemmas analyze_dataframe_returns =
  analyze_dataframe_with_returns[where excluded = EXCLUDED_COLUMNS, folded analyze_dataframe_def]


section \<open>The claims\<close>

text \<open>
  The statements below are about well-formed frames. A statement about fields that do
  not come from the word search covers every row index and has two parts: on a frame
  with the default index the profiler returns a profile, and every profile the profiler
  returns, on any frame, has the stated property. The word search reads the row labels,
  and the statements about its fields are for the default index. Closed statements are
  evaluated with the runtime \<open>py_model\<close>, on text on which it is Python's.
\<close>

subsection \<open>C1: range of the completion rate and of the missing percentage\<close>

text \<open>
  C1, as amended. For every well-formed dataset and every included column, the column's
  completion rate and the profile's missing percentage are both in the interval
  \<open>[0, 100]\<close>, and both are 0 when the dataset has no rows. The converse does not hold:
  the missing percentage is 0 exactly when no cell is missing, and a completion rate is
  0 exactly when the column has no present cell, which also happens with rows.
\<close>

theorem rates_in_range:
  assumes "well_formed df"
  shows "(default_index df \<longrightarrow> (\<exists>st. analyze_dataframe py df cq wq = Inr st)) \<and>
     (\<forall>st. analyze_dataframe py df cq wq = Inr st \<longrightarrow>
      0 \<le> missing_percentage st \<and> missing_percentage st \<le> 100 \<and>
      (\<forall>s \<in> set (all_columns st). 0 \<le> cs_completion_rate s \<and> cs_completion_rate s \<le> 100) \<and>
      (df_rows df = 0 \<longrightarrow>
         missing_percentage st = 0 \<and> (\<forall>s \<in> set (all_columns st). cs_completion_rate s = 0)) \<and>
      (missing_percentage st = 0 \<longleftrightarrow> total_missing st = 0) \<and>
      (\<forall>s \<in> set (all_columns st). cs_completion_rate s = 0 \<longleftrightarrow> cs_complete_count s = 0))"
proof -
  let ?N = "df_rows df"
  have len: "\<forall>c \<in> set (df_columns df). length (col_cells c) = ?N"
    using wf_length[OF assms] by blast
  have tot: "sum_list (map null_count (df_columns df)) \<le> ?N * length (df_columns df)"
    by (rule sum_null_count_le[OF len])
  have pres: "present_count c \<le> ?N" if "c \<in> set (included EXCLUDED_COLUMNS df)" for c
    using that len present_count_le[of c] included_subset by fastforce
  have zero: "sum_list (map null_count (df_columns df)) = 0" if "?N = 0"
    using tot that by simp
  have main: "0 \<le> missing_percentage st \<and> missing_percentage st \<le> 100 \<and>
      (\<forall>s \<in> set (all_columns st). 0 \<le> cs_completion_rate s \<and> cs_completion_rate s \<le> 100) \<and>
      (df_rows df = 0 \<longrightarrow>
         missing_percentage st = 0 \<and> (\<forall>s \<in> set (all_columns st). cs_completion_rate s = 0)) \<and>
      (missing_percentage st = 0 \<longleftrightarrow> total_missing st = 0) \<and>
      (\<forall>s \<in> set (all_columns st). cs_completion_rate s = 0 \<longleftrightarrow> cs_complete_count s = 0)"
    if "analyze_dataframe py df cq wq = Inr st" for st
  proof -
    from that obtain w where st: "st = profile_of py EXCLUDED_COLUMNS df cq w"
      using analyze_dataframe_Inr[OF assms] by blast
    show ?thesis
      unfolding st
      using pct_range[OF tot] pct_zero_iff[OF tot] pres zero
      by (auto simp: profile_of_def status_of_def pct_range pct_zero_iff)
  qed
  show ?thesis
    by (rule conjI, rule impI, erule analyze_dataframe_returns[OF assms],
        rule allI, rule impI, erule main)
qed

theorem rates_in_range_witness:
  "well_formed empty_df \<and> default_index empty_df \<and> df_rows empty_df = 0 \<and>
   (\<exists>st. analyze_dataframe py_model empty_df [] [] = Inr st \<and>
      0 \<le> missing_percentage st \<and> missing_percentage st \<le> 100 \<and>
      (\<forall>s \<in> set (all_columns st). 0 \<le> cs_completion_rate s \<and> cs_completion_rate s \<le> 100) \<and>
      missing_percentage st = 0 \<and> (\<forall>s \<in> set (all_columns st). cs_completion_rate s = 0)) \<and>
   well_formed ex_df \<and> default_index ex_df \<and>
   (\<exists>st. analyze_dataframe py_model ex_df [] [] = Inr st \<and>
      missing_percentage st = 100 / 3 \<and>
      map cs_completion_rate (all_columns st) = [200 / 3, 100] \<and>
      0 \<le> missing_percentage st \<and> missing_percentage st \<le> 100 \<and>
      (\<forall>s \<in> set (all_columns st). 0 \<le> cs_completion_rate s \<and> cs_completion_rate s \<le> 100))"
proof -
  have wf0: "well_formed empty_df"
    by code_simp
  have di0: "default_index empty_df"
    by code_simp
  have n0: "df_rows empty_df = 0"
    by code_simp
  have wf: "well_formed ex_df"
    by code_simp
  have di: "default_index ex_df"
    by code_simp
  have mp: "missing_percentage (projr (analyze_dataframe py_model ex_df [] [])) = 100 / 3"
    by code_simp
  have cr: "map cs_completion_rate (all_columns (projr (analyze_dataframe py_model ex_df [] []))) =
      [200 / 3, 100]"
    by code_simp
  from rates_in_range[OF wf0, of py_model "[]" "[]"] di0 n0
  have 1: "\<exists>st. analyze_dataframe py_model empty_df [] [] = Inr st \<and>
      0 \<le> missing_percentage st \<and> missing_percentage st \<le> 100 \<and>
      (\<forall>s \<in> set (all_columns st). 0 \<le> cs_completion_rate s \<and> cs_completion_rate s \<le> 100) \<and>
      missing_percentage st = 0 \<and> (\<forall>s \<in> set (all_columns st). cs_completion_rate s = 0)"
    by blast
  from rates_in_range[OF wf, of py_model "[]" "[]"] di obtain st where st:
    "analyze_dataframe py_model ex_df [] [] = Inr st"
    "0 \<le> missing_percentage st" "missing_percentage st \<le> 100"
    "\<forall>s \<in> set (all_columns st). 0 \<le> cs_completion_rate s \<and> cs_completion_rate s \<le> 100"
    by blast
  from mp cr have "missing_percentage st = 100 / 3"
    "map cs_completion_rate (all_columns st) = [200 / 3, 100]"
    unfolding st(1) by simp_all
  with st have 2: "\<exists>st. analyze_dataframe py_model ex_df [] [] = Inr st \<and>
      missing_percentage st = 100 / 3 \<and>
      map cs_completion_rate (all_columns st) = [200 / 3, 100] \<and>
      0 \<le> missing_percentage st \<and> missing_percentage st \<le> 100 \<and>
      (\<forall>s \<in> set (all_columns st). 0 \<le> cs_completion_rate s \<and> cs_completion_rate s \<le> 100)"
    by (intro exI[of _ st]) simp
  from wf0 di0 n0 1 wf di 2 show ?thesis by simp
qed

text \<open>
  The claim as stated fails in both of its parts on frames of one row. When the single
  cell is present nothing is missing, so the missing percentage is 0; when the single
  cell is missing the column has no present cell, so its completion rate is 0. The row
  count is 1 in both.
\<close>

theorem rates_zero_counterexample:
  "\<not> (missing_percentage (projr (analyze_dataframe py_model one_cell_df [] [])) = 0 \<longleftrightarrow>
        df_rows one_cell_df = 0) \<and>
   map cs_completion_rate (all_columns (projr (analyze_dataframe py_model all_null_df [] []))) = [0] \<and>
   df_rows all_null_df = 1"
proof -
  have 1: "missing_percentage (projr (analyze_dataframe py_model one_cell_df [] [])) = 0"
    by code_simp
  have 2: "df_rows one_cell_df = 1"
    by code_simp
  have 3: "map cs_completion_rate (all_columns (projr (analyze_dataframe py_model all_null_df [] []))) = [0]"
    by code_simp
  have 4: "df_rows all_null_df = 1"
    by code_simp
  from 1 2 3 4 show ?thesis by simp
qed

subsection \<open>C2: the length of an example value\<close>

text \<open>
  The Streamlit script keeps at most 100 characters of an example.
\<close>

lemma streamlit_example_value_capped: "length (streamlit_example_value c) \<le> 100"
  by (simp add: streamlit_example_value_def)

text \<open>
  C2 asks that every example value of the profile be the text of the matching cell cut
  to 100 characters. \<^verbatim>\<open>analyze_dataframe\<close> stores the whole text (line 196): on a frame
  whose single cell holds 101 characters, searched for a letter it contains, the one
  example of the profile has a value of 101 characters.
\<close>

theorem example_value_not_capped:
  "map (\<lambda>e. length (we_value e))
     (word_examples (projr (analyze_dataframe py_model long_df [] (ustr ''a'')))) = [101]"
  by code_simp

subsection \<open>C3: the name filter\<close>




subsection \<open>C4: the missing breakdown\<close>

text \<open>
  C4. For every well-formed dataset the missing breakdown holds exactly one entry for each
  column of the dataset, excluded columns included, whose missing count is greater than
  0; the list is in descending order of missing count, and entries with equal counts
  keep the order of their columns.
\<close>

theorem missing_breakdown_spec:
  assumes "well_formed df"
  shows "(default_index df \<longrightarrow> (\<exists>st. analyze_dataframe py df cq wq = Inr st)) \<and>
     (\<forall>st. analyze_dataframe py df cq wq = Inr st \<longrightarrow>
      mset (missing_breakdown st) =
        mset (map (breakdown_of (df_rows df)) (filter (\<lambda>c. 0 < null_count c) (df_columns df))) \<and>
      distinct (map mb_name (missing_breakdown st)) \<and>
      sorted_wrt (\<lambda>a b. mb_missing_count a \<ge> mb_missing_count b) (missing_breakdown st) \<and>
      (\<forall>k. filter (\<lambda>m. mb_missing_count m = k) (missing_breakdown st) =
            map (breakdown_of (df_rows df))
              (filter (\<lambda>c. null_count c = k \<and> 0 < k) (df_columns df))))"
proof -
  let ?items = "map (breakdown_of (df_rows df)) (filter (\<lambda>c. 0 < null_count c) (df_columns df))"
  have eq: "filter (\<lambda>m. mb_missing_count m = k) ?items =
      map (breakdown_of (df_rows df)) (filter (\<lambda>c. null_count c = k \<and> 0 < k) (df_columns df))" for k
  proof -
    have "(\<lambda>x. 0 < null_count x \<and> null_count x = k) = (\<lambda>c. null_count c = k \<and> 0 < k)"
      by auto
    then show ?thesis
      by (simp add: filter_map comp_def breakdown_of_def)
  qed
  have main: "mset (missing_breakdown st) = mset ?items \<and>
      distinct (map mb_name (missing_breakdown st)) \<and>
      sorted_wrt (\<lambda>a b. mb_missing_count a \<ge> mb_missing_count b) (missing_breakdown st) \<and>
      (\<forall>k. filter (\<lambda>m. mb_missing_count m = k) (missing_breakdown st) =
            map (breakdown_of (df_rows df))
              (filter (\<lambda>c. null_count c = k \<and> 0 < k) (df_columns df)))"
    if "analyze_dataframe py df cq wq = Inr st" for st
  proof -
    from that obtain w where st: "st = profile_of py EXCLUDED_COLUMNS df cq w"
      using analyze_dataframe_Inr[OF assms] by blast
    show ?thesis
      unfolding st
      using distinct_breakdown_names[OF wf_distinct[OF assms], of "df_rows df" "\<lambda>c. 0 < null_count c"]
      by (simp add: profile_of_def mset_list_sort_reverse sorted_list_sort_reverse
            filter_list_sort_reverse eq distinct_map_list_sort_reverse del: mset_map)
  qed
  show ?thesis
    by (rule conjI, rule impI, erule analyze_dataframe_returns[OF assms],
        rule allI, rule impI, erule main)
qed

theorem missing_breakdown_spec_witness:
  "well_formed ex_df \<and> default_index ex_df \<and>
   (\<exists>st. analyze_dataframe py_model ex_df [] [] = Inr st \<and>
      mset (missing_breakdown st) =
        mset (map (breakdown_of (df_rows ex_df))
                (filter (\<lambda>c. 0 < null_count c) (df_columns ex_df))) \<and>
      distinct (map mb_name (missing_breakdown st)) \<and>
      sorted_wrt (\<lambda>a b. mb_missing_count a \<ge> mb_missing_count b) (missing_breakdown st) \<and>
      (\<forall>k. filter (\<lambda>m. mb_missing_count m = k) (missing_breakdown st) =
            map (breakdown_of (df_rows ex_df))
              (filter (\<lambda>c. null_count c = k \<and> 0 < k) (df_columns ex_df))) \<and>
      map mb_name (missing_breakdown st) = [ustr ''Governorate'', ustr ''A''] \<and>
      map mb_missing_count (missing_breakdown st) = [2, 1])"
proof -
  have wf: "well_formed ex_df"
    by code_simp
  have di: "default_index ex_df"
    by code_simp
  have names: "map mb_name (missing_breakdown (projr (analyze_dataframe py_model ex_df [] []))) =
      [ustr ''Governorate'', ustr ''A'']"
    by code_simp
  have counts: "map mb_missing_count (missing_breakdown (projr (analyze_dataframe py_model ex_df [] []))) =
      [2, 1]"
    by code_simp
  from missing_breakdown_spec[OF wf, of py_model "[]" "[]"] di obtain st where st:
    "analyze_dataframe py_model ex_df [] [] = Inr st"
    "mset (missing_breakdown st) =
        mset (map (breakdown_of (df_rows ex_df))
                (filter (\<lambda>c. 0 < null_count c) (df_columns ex_df)))"
    "distinct (map mb_name (missing_breakdown st))"
    "sorted_wrt (\<lambda>a b. mb_missing_count a \<ge> mb_missing_count b) (missing_breakdown st)"
    "\<forall>k. filter (\<lambda>m. mb_missing_count m = k) (missing_breakdown st) =
            map (breakdown_of (df_rows ex_df))
              (filter (\<lambda>c. null_count c = k \<and> 0 < k) (df_columns ex_df))"
    by auto
  from names counts have "map mb_name (missing_breakdown st) = [ustr ''Governorate'', ustr ''A'']"
    "map mb_missing_count (missing_breakdown st) = [2, 1]"
    unfolding st(1) by simp_all
  with st have "\<exists>st. analyze_dataframe py_model ex_df [] [] = Inr st \<and>
      mset (missing_breakdown st) =
        mset (map (breakdown_of (df_rows ex_df))
                (filter (\<lambda>c. 0 < null_count c) (df_columns ex_df))) \<and>
      distinct (map mb_name (missing_breakdown st)) \<and>
      sorted_wrt (\<lambda>a b. mb_missing_count a \<ge> mb_missing_count b) (missing_breakdown st) \<and>
      (\<forall>k. filter (\<lambda>m. mb_missing_count m = k) (missing_breakdown st) =
            map (breakdown_of (df_rows ex_df))
              (filter (\<lambda>c. null_count c = k \<and> 0 < k) (df_columns ex_df))) \<and>
      map mb_name (missing_breakdown st) = [ustr ''Governorate'', ustr ''A''] \<and>
      map mb_missing_count (missing_breakdown st) = [2, 1]"
    by (intro exI[of _ st] conjI)
  with wf di show ?thesis by simp
qed

subsection \<open>C5: the caps on the examples\<close>



subsection \<open>C6: the matching rule\<close>

text \<open>
  In \<^verbatim>\<open>analyze_dataframe\<close> the rule of C6 holds for every search word and every column of
  ASCII text: the mask of line 183 marks exactly the cells whose text contains the word
  as a case-insensitive literal substring, the count of a column is the number of such
  cells, and a missing cell is searched as the fixed text \<^verbatim>\<open>nan\<close>.
\<close>

theorem word_match_is_ci_substring:
  assumes "ascii_case py" and "is_ascii wq"
    and "list_all (\<lambda>x. is_ascii (str_cell x)) (col_cells c)"
  shows "str_contains py (str_lower py wq) (astype_str c) =
     map (\<lambda>x. ci_substring wq (str_cell x)) (col_cells c) \<and>
   match_count py wq c = length (filter (\<lambda>x. ci_substring wq (str_cell x)) (col_cells c)) \<and>
   str_cell NaN = ustr ''nan''"
proof -
  have 1: "str_contains py (str_lower py wq) (astype_str c) =
     map (\<lambda>x. ci_substring wq (str_cell x)) (col_cells c)"
    using assms(3) ascii_case_upper_in[OF assms(1,2)]
    by (simp add: str_contains_def astype_str_def list_all_iff)
  have 2: "match_count py wq c = length (filter (\<lambda>x. ci_substring wq (str_cell x)) (col_cells c))"
    unfolding match_count_def match_mask_def 1 by (simp add: bool_sum_map)
  from 1 2 show ?thesis by simp
qed

text \<open>
  C6 asks for literal matching with no regular-expression reading of the word. Line 187
  of the Streamlit script reads the word as a regular expression: the word \<^verbatim>\<open>a.c\<close>
  matches the cell \<^verbatim>\<open>abc\<close> there, which does not contain it, and which line 183 of
  \<^verbatim>\<open>analyze_dataframe\<close> does not match.
\<close>

theorem streamlit_regex_divergence:
  "streamlit_str_contains (ustr ''a.c'') (astype_str abc_col) = Some [True] \<and>
   str_contains py_model (str_lower py_model (ustr ''a.c'')) (astype_str abc_col) = [False] \<and>
   \<not> ci_substring (ustr ''a.c'') (ustr ''abc'')"
proof -
  have 1: "streamlit_str_contains (ustr ''a.c'') (astype_str abc_col) = Some [True]"
    by code_simp
  have 2: "str_contains py_model (str_lower py_model (ustr ''a.c'')) (astype_str abc_col) = [False]"
    by code_simp
  have "\<not> str_in (map ascii_lower (ustr ''a.c'')) (map ascii_lower (ustr ''abc''))"
    by code_simp
  then have 3: "\<not> ci_substring (ustr ''a.c'') (ustr ''abc'')"
    unfolding ci_substring_lower .
  from 1 2 3 show ?thesis by simp
qed

subsection \<open>C7: profiling does not raise\<close>

text \<open>
  On a well-formed frame that carries the default index, also one without rows or
  without columns, and for every pair of queries, also a word that matches nothing,
  profiling returns a profile: no division by zero and no failed lookup is reached. A
  frame without rows or without columns gives zero percentages and counts and empty
  lists, and a word that matches no cell gives empty word results, no examples and a
  total of 0.
\<close>

theorem analyze_dataframe_never_raises:
  assumes "well_formed df" and "default_index df"
  shows "\<exists>st. analyze_dataframe py df cq wq = Inr st \<and>
      (df_rows df = 0 \<or> df_columns df = [] \<longrightarrow>
         missing_percentage st = 0 \<and> num_duplicates st = 0 \<and> total_missing st = 0 \<and>
         (\<forall>s \<in> set (all_columns st). cs_completion_rate s = 0) \<and>
         missing_breakdown st = [] \<and>
         word_results st = [] \<and> word_examples st = [] \<and> word_total_occurrences st = 0) \<and>
      ((\<forall>c \<in> set (included EXCLUDED_COLUMNS df). match_count py wq c = 0) \<longrightarrow>
         word_results st = [] \<and> word_examples st = [] \<and> word_total_occurrences st = 0)"
proof -
  let ?inc = "included EXCLUDED_COLUMNS df"
  have nomatch: "word_part py EXCLUDED_COLUMNS df wq = ([], [], 0)"
    if "\<forall>c \<in> set ?inc. match_count py wq c = 0"
  proof -
    have "filter (\<lambda>c. 0 < match_count py wq c) ?inc = []"
      using that by (simp add: filter_empty_conv)
    moreover have "sum_list (map (match_count py wq) ?inc) = 0"
      using that by simp
    ultimately show ?thesis
      by (simp add: word_part_def list_sort_reverse_Nil)
  qed
  have degenerate:
    "(\<forall>c \<in> set (df_columns df). null_count c = 0) \<and> (\<forall>c \<in> set ?inc. present_count c = 0) \<and>
     (\<forall>c \<in> set ?inc. match_count py wq c = 0)"
    if "df_rows df = 0 \<or> df_columns df = []"
  proof (cases "df_columns df = []")
    case True
    then show ?thesis by (simp add: included_def)
  next
    case False
    with that have n: "df_rows df = 0" by simp
    have e: "col_cells c = []" if "c \<in> set (df_columns df)" for c
      using wf_length[OF assms(1) that] n by simp
    have "match_count py wq c = 0" if "c \<in> set ?inc" for c
      using e[of c] that included_subset[of EXCLUDED_COLUMNS df]
      by (auto simp: match_count_def match_mask_def str_contains_def astype_str_def bool_sum_def)
    moreover have "present_count c = 0" if "c \<in> set ?inc" for c
      using e[of c] that included_subset[of EXCLUDED_COLUMNS df]
      by (auto simp: present_count_def)
    moreover have "null_count c = 0" if "c \<in> set (df_columns df)" for c
      using e[of c] that by (simp add: null_count_def)
    ultimately show ?thesis by blast
  qed
  have deg2: "missing_percentage st = 0 \<and> num_duplicates st = 0 \<and> total_missing st = 0 \<and>
         (\<forall>s \<in> set (all_columns st). cs_completion_rate s = 0) \<and>
         missing_breakdown st = [] \<and>
         word_results st = [] \<and> word_examples st = [] \<and> word_total_occurrences st = 0"
    if d: "df_rows df = 0 \<or> df_columns df = []" and st: "analyze_dataframe py df cq wq = Inr st" for st
  proof -
    note dg = degenerate[OF d]
    have f: "filter (\<lambda>c. 0 < null_count c) (df_columns df) = []"
      using dg by (simp add: filter_empty_conv)
    have s: "sum_list (map null_count (df_columns df)) = 0"
      using dg by simp
    have dup: "bool_sum (duplicated df) = 0"
      using d by (simp add: duplicated_def df_empty_def bool_sum_def)
    from st show ?thesis
      unfolding analyze_dataframe_eq[OF assms]
      using dg nomatch f s dup
      by (auto simp: pct_def status_of_def list_sort_reverse_Nil)
  qed
  obtain st where st: "analyze_dataframe py df cq wq = Inr st"
    using analyze_dataframe_eq[OF assms] by blast
  have "(\<forall>c \<in> set ?inc. match_count py wq c = 0) \<longrightarrow>
         word_results st = [] \<and> word_examples st = [] \<and> word_total_occurrences st = 0"
    using st nomatch unfolding analyze_dataframe_eq[OF assms] by auto
  with st deg2[OF _ st] show ?thesis by blast
qed

theorem analyze_dataframe_never_raises_witness:
  "well_formed empty_df \<and> default_index empty_df \<and> df_rows empty_df = 0 \<and>
   (\<exists>st. analyze_dataframe py_model empty_df (ustr ''a'') (ustr ''x'') = Inr st \<and>
      missing_percentage st = 0 \<and> num_duplicates st = 0 \<and> total_missing st = 0 \<and>
      (\<forall>s \<in> set (all_columns st). cs_completion_rate s = 0) \<and>
      missing_breakdown st = [] \<and>
      word_results st = [] \<and> word_examples st = [] \<and> word_total_occurrences st = 0) \<and>
   well_formed ex_df \<and> default_index ex_df \<and>
   map (match_count py_model (ustr ''zzz'')) (included EXCLUDED_COLUMNS ex_df) = [0, 0] \<and>
   (\<exists>st. analyze_dataframe py_model ex_df [] (ustr ''zzz'') = Inr st \<and>
      word_results st = [] \<and> word_examples st = [] \<and> word_total_occurrences st = 0)"
proof -
  have wf0: "well_formed empty_df"
    by code_simp
  have di0: "default_index empty_df"
    by code_simp
  have n0: "df_rows empty_df = 0"
    by code_simp
  have wf: "well_formed ex_df"
    by code_simp
  have di: "default_index ex_df"
    by code_simp
  have m: "map (match_count py_model (ustr ''zzz'')) (included EXCLUDED_COLUMNS ex_df) = [0, 0]"
    by code_simp
  have "list_all (\<lambda>c. match_count py_model (ustr ''zzz'') c = 0) (included EXCLUDED_COLUMNS ex_df)"
    by code_simp
  then have all0: "\<forall>c \<in> set (included EXCLUDED_COLUMNS ex_df). match_count py_model (ustr ''zzz'') c = 0"
    by (simp add: list_all_iff)
  from analyze_dataframe_never_raises[OF wf0 di0, of py_model "ustr ''a''" "ustr ''x''"] n0
  have 1: "\<exists>st. analyze_dataframe py_model empty_df (ustr ''a'') (ustr ''x'') = Inr st \<and>
      missing_percentage st = 0 \<and> num_duplicates st = 0 \<and> total_missing st = 0 \<and>
      (\<forall>s \<in> set (all_columns st). cs_completion_rate s = 0) \<and>
      missing_breakdown st = [] \<and>
      word_results st = [] \<and> word_examples st = [] \<and> word_total_occurrences st = 0"
    by auto
  from analyze_dataframe_never_raises[OF wf di, of py_model "[]" "ustr ''zzz''"] all0
  have 2: "\<exists>st. analyze_dataframe py_model ex_df [] (ustr ''zzz'') = Inr st \<and>
      word_results st = [] \<and> word_examples st = [] \<and> word_total_occurrences st = 0"
    by auto
  from wf0 di0 n0 1 wf di m 2 show ?thesis by simp
qed

text \<open>
  C7 asks that profiling never raise on a well-formed dataset. The frame that
  \<^verbatim>\<open>read_csv\<close> builds from the lines \<^verbatim>\<open>A,B\<close> and \<^verbatim>\<open>x,1,2\<close> is well formed and not empty, and
  its only row is labelled \<^verbatim>\<open>x\<close>. Searched for the word \<^verbatim>\<open>1\<close>, its first column matches,
  line 194 collects the label of the row, and \<^verbatim>\<open>int(idx)\<close> of line 198 raises
  \<^verbatim>\<open>ValueError\<close>.
\<close>

theorem row_label_raises:
  "well_formed labelled_df \<and> \<not> df_empty labelled_df \<and>
   analyze_dataframe py_model labelled_df [] (ustr ''1'') = Inl ValueError"
proof -
  have 1: "well_formed labelled_df"
    by code_simp
  have 2: "\<not> df_empty labelled_df"
    by code_simp
  have 3: "analyze_dataframe py_model labelled_df [] (ustr ''1'') = Inl ValueError"
    by code_simp
  from 1 2 3 show ?thesis by simp
qed

subsection \<open>C8: the duplicate-row count\<close>

text \<open>
  C8. For every well-formed dataset, the duplicate-row count is the number of rows that
  repeat an earlier row value for value, every occurrence after the first counting
  once; for an empty dataset, one without rows or without columns, the count is 0.
  Values are compared as numbers and texts, so the two zeros of a float column are the
  same value, and two missing values are the same value.
\<close>

theorem num_duplicates_spec:
  assumes "well_formed df"
  shows "(default_index df \<longrightarrow> (\<exists>st. analyze_dataframe py df cq wq = Inr st)) \<and>
     (\<forall>st. analyze_dataframe py df cq wq = Inr st \<longrightarrow>
      num_duplicates st = (if df_empty df then 0 else duplicate_row_count df) \<and>
      (df_rows df = 0 \<longrightarrow> num_duplicates st = 0))"
proof -
  have main: "num_duplicates st = (if df_empty df then 0 else duplicate_row_count df) \<and>
      (df_rows df = 0 \<longrightarrow> num_duplicates st = 0)"
    if "analyze_dataframe py df cq wq = Inr st" for st
  proof -
    from that obtain w where st: "st = profile_of py EXCLUDED_COLUMNS df cq w"
      using analyze_dataframe_Inr[OF assms] by blast
    show ?thesis
      unfolding st by (simp add: profile_of_def df_empty_def)
  qed
  show ?thesis
    by (rule conjI, rule impI, erule analyze_dataframe_returns[OF assms],
        rule allI, rule impI, erule main)
qed

theorem num_duplicates_spec_witness:
  "well_formed dup_df \<and> default_index dup_df \<and> \<not> df_empty dup_df \<and>
   duplicate_row_count dup_df = 2 \<and>
   (\<exists>st. analyze_dataframe py_model dup_df [] [] = Inr st \<and> num_duplicates st = 2) \<and>
   well_formed empty_df \<and> default_index empty_df \<and> df_rows empty_df = 0 \<and>
   (\<exists>st. analyze_dataframe py_model empty_df [] [] = Inr st \<and> num_duplicates st = 0)"
proof -
  have wf: "well_formed dup_df"
    by code_simp
  have di: "default_index dup_df"
    by code_simp
  have ne: "\<not> df_empty dup_df"
    by code_simp
  have wf0: "well_formed empty_df"
    by code_simp
  have di0: "default_index empty_df"
    by code_simp
  have n0: "df_rows empty_df = 0"
    by code_simp
  from num_duplicates_spec[OF wf, of py_model "[]" "[]"] di ne
  have 1: "\<exists>st. analyze_dataframe py_model dup_df [] [] = Inr st \<and> num_duplicates st = 2"
    by (auto simp: dup_count_dup_df)
  from num_duplicates_spec[OF wf0, of py_model "[]" "[]"] di0 n0
  have 2: "\<exists>st. analyze_dataframe py_model empty_df [] [] = Inr st \<and> num_duplicates st = 0"
    by auto
  from wf di ne dup_count_dup_df 1 wf0 di0 n0 2 show ?thesis by simp
qed

subsection \<open>C9: missing cells of the included columns against the total\<close>

text \<open>
  C9. For every well-formed dataset, the sum of the missing counts over the statuses of
  the included columns is at most the profile's total of missing cells, which is taken
  over all columns; the two are equal when the set of excluded names is empty. The
  excluded names are the parameter of \<open>analyze_dataframe_with\<close>, so the statement covers
  the module constant as well as the empty set.
\<close>

theorem included_missing_le_total:
  assumes "well_formed df"
  shows "(default_index df \<longrightarrow> (\<exists>st. analyze_dataframe_with py excluded df cq wq = Inr st)) \<and>
     (\<forall>st. analyze_dataframe_with py excluded df cq wq = Inr st \<longrightarrow>
      sum_list (map cs_missing_count (all_columns st)) \<le> total_missing st \<and>
      (excluded = [] \<longrightarrow> sum_list (map cs_missing_count (all_columns st)) = total_missing st))"
proof -
  have le: "sum_list (map f (filter P xs)) \<le> sum_list (map f xs)" for f :: "column \<Rightarrow> nat" and P xs
    by (induction xs) auto
  have main: "sum_list (map cs_missing_count (all_columns st)) \<le> total_missing st \<and>
      (excluded = [] \<longrightarrow> sum_list (map cs_missing_count (all_columns st)) = total_missing st)"
    if "analyze_dataframe_with py excluded df cq wq = Inr st" for st
  proof -
    from that obtain w where st: "st = profile_of py excluded df cq w"
      using analyze_dataframe_with_Inr[OF assms] by blast
    show ?thesis
      unfolding st
      using le[of null_count "\<lambda>c. col_name c \<notin> set excluded" "df_columns df"]
      by (simp add: profile_of_def included_def comp_def status_of_def)
  qed
  show ?thesis
    by (rule conjI, rule impI, erule analyze_dataframe_with_returns[OF assms],
        rule allI, rule impI, erule main)
qed

theorem included_missing_le_total_witness:
  "well_formed ex_df \<and> default_index ex_df \<and>
   (\<exists>st. analyze_dataframe_with py_model [] ex_df [] [] = Inr st \<and>
      sum_list (map cs_missing_count (all_columns st)) \<le> total_missing st \<and>
      sum_list (map cs_missing_count (all_columns st)) = total_missing st) \<and>
   (\<exists>st. analyze_dataframe_with py_model EXCLUDED_COLUMNS ex_df [] [] = Inr st \<and>
      sum_list (map cs_missing_count (all_columns st)) \<le> total_missing st \<and>
      sum_list (map cs_missing_count (all_columns st)) = 1 \<and> total_missing st = 3)"
proof -
  have wf: "well_formed ex_df"
    by code_simp
  have di: "default_index ex_df"
    by code_simp
  have s: "sum_list (map cs_missing_count (all_columns
      (projr (analyze_dataframe_with py_model EXCLUDED_COLUMNS ex_df [] [])))) = 1"
    by code_simp
  have t: "total_missing (projr (analyze_dataframe_with py_model EXCLUDED_COLUMNS ex_df [] [])) = 3"
    by code_simp
  from included_missing_le_total[OF wf, of py_model "[]" "[]" "[]"] di
  have 1: "\<exists>st. analyze_dataframe_with py_model [] ex_df [] [] = Inr st \<and>
      sum_list (map cs_missing_count (all_columns st)) \<le> total_missing st \<and>
      sum_list (map cs_missing_count (all_columns st)) = total_missing st"
    by auto
  from included_missing_le_total[OF wf, of py_model EXCLUDED_COLUMNS "[]" "[]"] di
  obtain st where st: "analyze_dataframe_with py_model EXCLUDED_COLUMNS ex_df [] [] = Inr st"
    "sum_list (map cs_missing_count (all_columns st)) \<le> total_missing st"
    by auto
  from s t have "sum_list (map cs_missing_count (all_columns st)) = 1" "total_missing st = 3"
    unfolding st(1) by simp_all
  with st have 2: "\<exists>st. analyze_dataframe_with py_model EXCLUDED_COLUMNS ex_df [] [] = Inr st \<and>
      sum_list (map cs_missing_count (all_columns st)) \<le> total_missing st \<and>
      sum_list (map cs_missing_count (all_columns st)) = 1 \<and> total_missing st = 3"
    by (intro exI[of _ st]) simp
  from wf di 1 2 show ?thesis by simp
qed

subsection \<open>C10: consistency of the completeness fields\<close>

text \<open>
  C10. For every well-formed dataset the fields of the profile agree with each other:
  \<open>complete_columns\<close> is, in column order, the names of exactly the included columns whose
  missing count is 0; \<open>complete_columns_count\<close> is its length; and every column status is
  marked complete exactly when its missing count is 0. The statuses are those of the
  included columns, each with the number of missing cells of its column.
\<close>

theorem complete_columns_consistent:
  assumes "well_formed df"
  shows "(default_index df \<longrightarrow> (\<exists>st. analyze_dataframe py df cq wq = Inr st)) \<and>
     (\<forall>st. analyze_dataframe py df cq wq = Inr st \<longrightarrow>
      complete_columns st = map cs_name (filter (\<lambda>s. cs_missing_count s = 0) (all_columns st)) \<and>
      complete_columns_count st = length (complete_columns st) \<and>
      (\<forall>s \<in> set (all_columns st). cs_is_complete s \<longleftrightarrow> cs_missing_count s = 0) \<and>
      map cs_name (all_columns st) =
        filter (\<lambda>n. n \<notin> set EXCLUDED_COLUMNS) (map col_name (df_columns df)) \<and>
      map cs_missing_count (all_columns st) =
        map null_count (filter (\<lambda>c. col_name c \<notin> set EXCLUDED_COLUMNS) (df_columns df)))"
proof -
  have main: "complete_columns st = map cs_name (filter (\<lambda>s. cs_missing_count s = 0) (all_columns st)) \<and>
      complete_columns_count st = length (complete_columns st) \<and>
      (\<forall>s \<in> set (all_columns st). cs_is_complete s \<longleftrightarrow> cs_missing_count s = 0) \<and>
      map cs_name (all_columns st) =
        filter (\<lambda>n. n \<notin> set EXCLUDED_COLUMNS) (map col_name (df_columns df)) \<and>
      map cs_missing_count (all_columns st) =
        map null_count (filter (\<lambda>c. col_name c \<notin> set EXCLUDED_COLUMNS) (df_columns df))"
    if "analyze_dataframe py df cq wq = Inr st" for st
  proof -
    from that obtain w where st: "st = profile_of py EXCLUDED_COLUMNS df cq w"
      using analyze_dataframe_Inr[OF assms] by blast
    show ?thesis
      unfolding st by (simp add: profile_of_def filter_map comp_def status_of_def included_def)
  qed
  show ?thesis
    by (rule conjI, rule impI, erule analyze_dataframe_returns[OF assms],
        rule allI, rule impI, erule main)
qed

theorem complete_columns_consistent_witness:
  "well_formed ex_df \<and> default_index ex_df \<and>
   (\<exists>st. analyze_dataframe py_model ex_df [] [] = Inr st \<and>
      complete_columns st = map cs_name (filter (\<lambda>s. cs_missing_count s = 0) (all_columns st)) \<and>
      complete_columns_count st = length (complete_columns st) \<and>
      (\<forall>s \<in> set (all_columns st). cs_is_complete s \<longleftrightarrow> cs_missing_count s = 0) \<and>
      map cs_name (all_columns st) = [ustr ''A'', ustr ''B''] \<and>
      complete_columns st = [ustr ''B''])"
proof -
  have wf: "well_formed ex_df"
    by code_simp
  have di: "default_index ex_df"
    by code_simp
  have names: "filter (\<lambda>n. n \<notin> set EXCLUDED_COLUMNS) (map col_name (df_columns ex_df)) =
      [ustr ''A'', ustr ''B'']"
    by code_simp
  have cc: "complete_columns (projr (analyze_dataframe py_model ex_df [] [])) = [ustr ''B'']"
    by code_simp
  from complete_columns_consistent[OF wf, of py_model "[]" "[]"] di obtain st where st:
    "analyze_dataframe py_model ex_df [] [] = Inr st"
    "complete_columns st = map cs_name (filter (\<lambda>s. cs_missing_count s = 0) (all_columns st))"
    "complete_columns_count st = length (complete_columns st)"
    "\<forall>s \<in> set (all_columns st). cs_is_complete s \<longleftrightarrow> cs_missing_count s = 0"
    "map cs_name (all_columns st) = [ustr ''A'', ustr ''B'']"
    unfolding names by auto
  from cc have "complete_columns st = [ustr ''B'']"
    unfolding st(1) by simp
  with st have "\<exists>st. analyze_dataframe py_model ex_df [] [] = Inr st \<and>
      complete_columns st = map cs_name (filter (\<lambda>s. cs_missing_count s = 0) (all_columns st)) \<and>
      complete_columns_count st = length (complete_columns st) \<and>
      (\<forall>s \<in> set (all_columns st). cs_is_complete s \<longleftrightarrow> cs_missing_count s = 0) \<and>
      map cs_name (all_columns st) = [ustr ''A'', ustr ''B''] \<and>
      complete_columns st = [ustr ''B'']"
    by (intro exI[of _ st] conjI)
  with wf di show ?thesis by simp
qed

end
